theory Spec2Isabelle
  imports Complex_Main
begin

section \<open>Values, errors and the environment\<close>

text \<open>
  The program is \<^verbatim>\<open>src/main.py\<close>. Exceptions are values of \<open>error\<close>; a function
  that may raise returns \<open>error + 'a\<close> with \<open>Inl\<close> for the exception. The calls of
  \<^verbatim>\<open>log\<close> are left out: printing is taken to succeed.
\<close>

datatype error =
    FileNotFoundError
  | ValueError
  | TypeError
  | AttributeError
  | RuntimeError
  | TimeoutError
  | HTTPError
  | OSError
  | IndexError
  | OverflowError
  | MemoryError
  | UnicodeEncodeError
  | UploadError

text \<open>
  Times are seconds as rationals (\<^verbatim>\<open>time.time()\<close>, \<^verbatim>\<open>st_mtime\<close>); sizes and the
  configured numbers are Python integers.
\<close>

type_synonym path = string

datatype kind = RegularFile | Directory

record stat_result =
  st_kind :: kind
  st_size :: int
  st_mtime :: rat

text \<open>
  A snapshot of the file system, as \<^verbatim>\<open>pathlib\<close> shows it: \<open>fs_stat\<close> is \<open>None\<close>
  for a path that does not exist (\<^verbatim>\<open>Path.stat\<close> raises \<^verbatim>\<open>FileNotFoundError\<close> there),
  \<open>fs_rglob\<close> and \<open>fs_iterdir\<close> list a directory in the order the system yields the
  entries, \<open>fs_resolve\<close> is \<^verbatim>\<open>str(Path(p).resolve())\<close>.
\<close>

record fsys =
  fs_stat :: "path \<Rightarrow> stat_result option"
  fs_rglob :: "path \<Rightarrow> path list"
  fs_iterdir :: "path \<Rightarrow> path list"
  fs_resolve :: "path \<Rightarrow> path"

definition exists_path :: "fsys \<Rightarrow> path \<Rightarrow> bool" where
  "exists_path fs p = (fs_stat fs p \<noteq> None)"

definition is_file :: "fsys \<Rightarrow> path \<Rightarrow> bool" where
  "is_file fs p = (case fs_stat fs p of None \<Rightarrow> False | Some st \<Rightarrow> st_kind st = RegularFile)"

text \<open>
  The file system changes while the program sleeps: \<open>fs_at t\<close> is the snapshot at time
  \<open>t\<close>. \<^verbatim>\<open>time.sleep(d)\<close> moves the clock by \<open>d\<close> seconds and raises
  \<^verbatim>\<open>ValueError\<close> for a negative \<open>d\<close>.
\<close>

type_synonym timeline = "rat \<Rightarrow> fsys"

definition stat_at :: "timeline \<Rightarrow> rat \<Rightarrow> path \<Rightarrow> error + stat_result" where
  "stat_at tln t p = (case fs_stat (tln t) p of None \<Rightarrow> Inl FileNotFoundError | Some st \<Rightarrow> Inr st)"

section \<open>Stability detector\<close>

text \<open>
  \<^verbatim>\<open>is_file_stable(path, stable_for_sec)\<close>: two size samples, a sleep of
  \<^verbatim>\<open>max(1, stable_for_sec // 3)\<close> between them. The result carries the clock after
  the call.
\<close>

definition sample_interval :: "int \<Rightarrow> int" where
  "sample_interval stable_for_sec = max 1 (stable_for_sec div 3)"

definition is_file_stable :: "timeline \<Rightarrow> rat \<Rightarrow> path \<Rightarrow> int \<Rightarrow> (error + bool) \<times> rat" where
  "is_file_stable tln now p stable_for_sec =
     (case stat_at tln now p of
        Inl e \<Rightarrow> (Inl e, now)
      | Inr st1 \<Rightarrow>
          (let now' = now + of_int (sample_interval stable_for_sec) in
           case stat_at tln now' p of
             Inl e \<Rightarrow> (Inl e, now')
           | Inr st2 \<Rightarrow> (Inr (st_size st1 = st_size st2), now')))"

section \<open>Strings and paths\<close>

text \<open>
  A string is the list of its code points, each below 256 (Latin-1); text with other
  code points is outside this development. \<^verbatim>\<open>str.lower\<close> maps \<^verbatim>\<open>A\<close> to \<^verbatim>\<open>Z\<close>
  and the capital letters U+00C0 to U+00DE (not the sign U+00D7) to the letter 32 code
  points up. \<^verbatim>\<open>str.strip\<close> removes the characters for which \<^verbatim>\<open>str.isspace\<close> holds:
  U+0009 to U+000D, U+001C to U+0020, U+0085 and U+00A0. \<^verbatim>\<open>Path.name\<close>,
  \<^verbatim>\<open>Path.parent\<close> and \<^verbatim>\<open>Path.suffix\<close> are those of an absolute POSIX path (the
  suffix starts at the last dot of the name, unless that dot is the first or the last
  character; the parent of a file under the root is the root).
\<close>

definition lower_char :: "char \<Rightarrow> char" where
  "lower_char c =
     (if (65 \<le> (of_char c :: nat) \<and> (of_char c :: nat) \<le> 90)
         \<or> (192 \<le> (of_char c :: nat) \<and> (of_char c :: nat) \<le> 222 \<and> (of_char c :: nat) \<noteq> 215)
      then char_of ((of_char c :: nat) + 32) else c)"

definition lower :: "string \<Rightarrow> string" where
  "lower s = map lower_char s"

definition is_space :: "char \<Rightarrow> bool" where
  "is_space c =
     ((9 \<le> (of_char c :: nat) \<and> (of_char c :: nat) \<le> 13)
      \<or> (28 \<le> (of_char c :: nat) \<and> (of_char c :: nat) \<le> 32)
      \<or> (of_char c :: nat) = 133 \<or> (of_char c :: nat) = 160)"

definition strip :: "string \<Rightarrow> string" where
  "strip s = rev (dropWhile is_space (rev (dropWhile is_space s)))"

definition startswith :: "string \<Rightarrow> string \<Rightarrow> bool" where
  "startswith s pre = (take (length pre) s = pre)"

fun contains :: "string \<Rightarrow> string \<Rightarrow> bool" where
  "contains [] sub = (sub = [])"
| "contains (c # cs) sub = (startswith (c # cs) sub \<or> contains cs sub)"

definition path_name :: "path \<Rightarrow> string" where
  "path_name p = rev (takeWhile (\<lambda>c. c \<noteq> CHR ''/'') (rev p))"

definition path_parent :: "path \<Rightarrow> path" where
  "path_parent p =
     (case rev (drop 1 (dropWhile (\<lambda>c. c \<noteq> CHR ''/'') (rev p))) of
        [] \<Rightarrow> ''/''
      | c # cs \<Rightarrow> c # cs)"

definition path_suffix :: "path \<Rightarrow> string" where
  "path_suffix p =
     (let name = path_name p;
          after = takeWhile (\<lambda>c. c \<noteq> CHR ''.'') (rev name);
          i = length name - length after - 1
      in if CHR ''.'' \<in> set name \<and> 0 < i \<and> after \<noteq> [] then drop i name else [])"

section \<open>JSON values\<close>

text \<open>
  What \<^verbatim>\<open>json.loads\<close> returns: a \<^verbatim>\<open>dict\<close> is an association list read with
  \<open>map_of\<close>. \<open>dict_get\<close> is \<^verbatim>\<open>d.get(k)\<close>, which raises \<^verbatim>\<open>AttributeError\<close> on a
  value that is not a dict; \<open>truthy\<close> is Python's truth value.
\<close>

datatype json =
    JNull
  | JBool bool
  | JNum rat
  | JStr string
  | JArr "json list"
  | JObj "(string \<times> json) list"

definition dict_get :: "json \<Rightarrow> string \<Rightarrow> error + json option" where
  "dict_get d k = (case d of JObj kvs \<Rightarrow> Inr (map_of kvs k) | _ \<Rightarrow> Inl AttributeError)"

fun truthy :: "json \<Rightarrow> bool" where
  "truthy JNull = False"
| "truthy (JBool b) = b"
| "truthy (JNum n) = (n \<noteq> 0)"
| "truthy (JStr s) = (s \<noteq> [])"
| "truthy (JArr xs) = (xs \<noteq> [])"
| "truthy (JObj kvs) = (kvs \<noteq> [])"

fun unhashable :: "json \<Rightarrow> bool" where
  "unhashable (JArr xs) = True"
| "unhashable (JObj kvs) = True"
| "unhashable v = False"

text \<open>
  \<^verbatim>\<open>set(v)\<close>, as the list of its elements: the elements of a list (\<^verbatim>\<open>TypeError\<close> when
  one is a list or a dict), the characters of a string, the keys of a dict;
  \<^verbatim>\<open>TypeError\<close> for a value that is not iterable. A string is a member of the set
  exactly when it is one of the elements.
\<close>

fun py_set :: "json \<Rightarrow> error + json list" where
  "py_set (JArr xs) = (if list_ex unhashable xs then Inl TypeError else Inr xs)"
| "py_set (JStr s) = Inr (map (\<lambda>c. JStr [c]) s)"
| "py_set (JObj kvs) = Inr (map (\<lambda>kv. JStr (fst kv)) kvs)"
| "py_set v = Inl TypeError"

section \<open>Settings\<close>

text \<open>The fields of \<^verbatim>\<open>Settings\<close> that the functions below read.\<close>

record settings =
  trigger_mode :: string
  webhook_path :: string
  webhook_token :: string
  watch_dir :: path
  vod_extensions :: "string list"
  poll_interval_sec :: int
  stable_for_sec :: int
  min_vod_size_mb :: int
  processed_state_file :: path
  source_path_rewrite_from :: string
  source_path_rewrite_to :: string
  publish_mode :: string
  opus_wait_timeout_sec :: int
  opus_poll_interval_sec :: int
  yt_title_prefix :: string
  run_once :: bool
  explicit_vod_file :: "path option"

section \<open>Processed-set store\<close>

text \<open>
  The state file is absent, unreadable as JSON, or holds a JSON value.
  \<^verbatim>\<open>load_processed\<close> returns whatever JSON the file holds, and the empty record when
  the file is absent or corrupt. \<open>seen_of\<close> is
  \<^verbatim>\<open>set(processed.get("processed_files", []))\<close>.
\<close>

datatype file_content = Absent | Corrupt | Holds json

definition load_processed :: "file_content \<Rightarrow> json" where
  "load_processed f =
     (case f of Holds v \<Rightarrow> v | _ \<Rightarrow> JObj [(''processed_files'', JArr [])])"

definition seen_of :: "json \<Rightarrow> error + json list" where
  "seen_of processed =
     (case dict_get processed ''processed_files'' of
        Inl e \<Rightarrow> Inl e
      | Inr None \<Rightarrow> py_set (JArr [])
      | Inr (Some v) \<Rightarrow> py_set v)"

text \<open>The ProcessedSet of a state: the strings among the entries of \<open>processed_files\<close>.\<close>

definition processed_set :: "json \<Rightarrow> string set" where
  "processed_set processed =
     (case seen_of processed of Inl e \<Rightarrow> {} | Inr xs \<Rightarrow> {k. JStr k \<in> set xs})"

section \<open>VOD locator, poll strategy\<close>

text \<open>
  \<^verbatim>\<open>list_vod_candidates\<close>: the regular files under the watch directory whose lower-cased
  suffix is allowed, most recently modified first. Python's \<^verbatim>\<open>sorted\<close> is stable, also
  with \<^verbatim>\<open>reverse=True\<close>, and so is \<open>sort_key\<close>. The key raises
  \<^verbatim>\<open>FileNotFoundError\<close> for a file that is gone.
\<close>

definition mtime_key :: "fsys \<Rightarrow> path \<Rightarrow> rat" where
  "mtime_key fs p = (case fs_stat fs p of None \<Rightarrow> 0 | Some st \<Rightarrow> - st_mtime st)"

definition list_vod_candidates :: "settings \<Rightarrow> fsys \<Rightarrow> error + path list" where
  "list_vod_candidates s fs =
     (if \<not> exists_path fs (watch_dir s) then Inr []
      else
        (let files = filter (\<lambda>p. is_file fs p \<and> lower (path_suffix p) \<in> set (vod_extensions s))
                       (fs_rglob fs (watch_dir s))
         in if list_ex (\<lambda>p. fs_stat fs p = None) files then Inl FileNotFoundError
            else Inr (sort_key (mtime_key fs) files)))"

text \<open>
  The \<^verbatim>\<open>for p in candidates\<close> loop of \<^verbatim>\<open>wait_for_finished_vod\<close>. It ends with the
  selected file, with an exception, or with no file ready; the clock moves with every
  stability check.
\<close>

datatype scan_result = Selected path | Raised error | NoneReady

fun scan_candidates ::
  "settings \<Rightarrow> timeline \<Rightarrow> json list \<Rightarrow> rat \<Rightarrow> path list \<Rightarrow> scan_result \<times> rat" where
  "scan_candidates s tln seen now [] = (NoneReady, now)"
| "scan_candidates s tln seen now (p # ps) =
     (if JStr (fs_resolve (tln now) p) \<in> set seen then scan_candidates s tln seen now ps
      else
        (case stat_at tln now p of
           Inl e \<Rightarrow> (Raised e, now)
         | Inr st \<Rightarrow>
             if st_size st < min_vod_size_mb s * 1024 * 1024 then scan_candidates s tln seen now ps
             else if now - st_mtime st < of_int (stable_for_sec s) then scan_candidates s tln seen now ps
             else
               (case is_file_stable tln now p (stable_for_sec s) of
                  (Inl e, now') \<Rightarrow> (Raised e, now')
                | (Inr True, now') \<Rightarrow> (Selected p, now')
                | (Inr False, now') \<Rightarrow> scan_candidates s tln seen now' ps)))"

text \<open>
  The \<^verbatim>\<open>while True\<close> loop: one scan per cycle, then a sleep of the poll interval. The
  loop need not end, so the result is an option and \<open>None\<close> means it never returns.
\<close>

partial_function (option) wait_cycles ::
  "settings \<Rightarrow> timeline \<Rightarrow> json list \<Rightarrow> rat \<Rightarrow> ((error + path) \<times> rat) option" where
  "wait_cycles s tln seen now =
     (case list_vod_candidates s (tln now) of
        Inl e \<Rightarrow> Some (Inl e, now)
      | Inr candidates \<Rightarrow>
          (case scan_candidates s tln seen now candidates of
             (Selected p, now') \<Rightarrow> Some (Inr p, now')
           | (Raised e, now') \<Rightarrow> Some (Inl e, now')
           | (NoneReady, now') \<Rightarrow>
               if poll_interval_sec s < 0 then Some (Inl ValueError, now')
               else wait_cycles s tln seen (now' + of_int (poll_interval_sec s))))"

definition wait_for_finished_vod ::
  "settings \<Rightarrow> timeline \<Rightarrow> json \<Rightarrow> rat \<Rightarrow> ((error + path) \<times> rat) option" where
  "wait_for_finished_vod s tln processed now =
     (case seen_of processed of
        Inl e \<Rightarrow> Some (Inl e, now)
      | Inr seen \<Rightarrow> wait_cycles s tln seen now)"

section \<open>External boundaries\<close>

text \<open>
  The collaborators of one pipeline run, as the run sees them: the file system, the two
  publish adapters, the clip service (the body of the POST that creates a project; for
  the \<open>n\<close>-th GET of the exportable clips the seconds it takes and its body or the
  exception of \<^verbatim>\<open>raise_for_status\<close>), the clip download (keyed by the clip and its
  index, giving the file written), the creation of the download directory, the video
  host, the write of the state file, \<^verbatim>\<open>str()\<close> of a JSON value that is not a
  string, and the seconds the whole run takes.

  \<^verbatim>\<open>save_processed\<close> creates the parent directory and then \<^verbatim>\<open>Path.write_text\<close> opens
  the file for writing, which empties it, before the text is encoded and written. So a
  save succeeds, or raises before the file is opened and leaves it as it was, or raises
  after the file is opened and leaves it with whatever reached the disk.
\<close>

datatype save_result = Saved | RaisedBeforeOpen error | RaisedAfterOpen error file_content

record world =
  w_fs :: fsys
  w_publish_local :: "path \<Rightarrow> error + string"
  w_publish_dropbox :: "path \<Rightarrow> error + string"
  w_post_project :: "string \<Rightarrow> error + json"
  w_get_clips :: "string \<Rightarrow> nat \<Rightarrow> rat \<times> (error + json)"
  w_mkdir :: "path \<Rightarrow> error option"
  w_fetch :: "nat \<Rightarrow> json \<Rightarrow> error + path"
  w_uploader_init :: "error option"
  w_upload :: "path \<Rightarrow> string \<Rightarrow> string \<Rightarrow> error + string"
  w_save :: "path \<Rightarrow> json \<Rightarrow> save_result"
  w_str :: "json \<Rightarrow> string"
  w_run_seconds :: rat

text \<open>The calls a run makes on its collaborators, in order.\<close>

datatype call =
    CallPublish path
  | CallSubmit string
  | CallPoll string
  | CallSleep int
  | CallFetch nat json
  | CallUploaderInit
  | CallUpload path string string
  | CallSave path json

section \<open>Publish and clip job\<close>

definition publish_vod :: "settings \<Rightarrow> world \<Rightarrow> path \<Rightarrow> (error + string) \<times> call list" where
  "publish_vod s w vod_path =
     (if publish_mode s = ''local_http'' then (w_publish_local w vod_path, [CallPublish vod_path])
      else if publish_mode s = ''dropbox'' then (w_publish_dropbox w vod_path, [CallPublish vod_path])
      else (Inl ValueError, []))"

definition nonempty_str :: "json option \<Rightarrow> string option" where
  "nonempty_str c = (case c of Some (JStr x) \<Rightarrow> (if x \<noteq> [] then Some x else None) | _ \<Rightarrow> None)"

definition extract_project_id :: "json \<Rightarrow> error + string" where
  "extract_project_id body =
     (case body of
        JObj kvs \<Rightarrow>
          (let dat = (case map_of kvs ''data'' of Some (JObj d) \<Rightarrow> d | _ \<Rightarrow> []);
               candidates = [map_of kvs ''projectId'', map_of kvs ''id'',
                             map_of dat ''projectId'', map_of dat ''id'']
           in case List.map_filter nonempty_str candidates of
                [] \<Rightarrow> Inl RuntimeError
              | c # cs \<Rightarrow> Inr c)
      | _ \<Rightarrow> Inl AttributeError)"

definition create_clip_project :: "world \<Rightarrow> string \<Rightarrow> error + string" where
  "create_clip_project w video_url =
     (case w_post_project w video_url of Inl e \<Rightarrow> Inl e | Inr body \<Rightarrow> extract_project_id body)"

text \<open>
  \<^verbatim>\<open>OpusClient.wait_exportable_clips\<close>. \<open>elapsed\<close> is the time since \<^verbatim>\<open>started\<close>,
  \<open>poll_no\<close> the polls made so far, \<open>tr\<close> the calls made so far. The loop has no bound
  of its own, so the result is an option.
\<close>

definition ready_clips :: "json option \<Rightarrow> json list option" where
  "ready_clips d =
     (case d of Some (JArr clips) \<Rightarrow> (if clips \<noteq> [] then Some clips else None)
              | _ \<Rightarrow> None)"

partial_function (option) wait_clips_loop ::
  "settings \<Rightarrow> world \<Rightarrow> string \<Rightarrow> rat \<Rightarrow> nat \<Rightarrow> call list
     \<Rightarrow> ((error + json list) \<times> call list) option" where
  "wait_clips_loop s w project_id elapsed poll_no tr =
     (case snd (w_get_clips w project_id (Suc poll_no)) of
        Inl e \<Rightarrow> Some (Inl e, tr @ [CallPoll project_id])
      | Inr body \<Rightarrow>
          (case dict_get body ''data'' of
             Inl e \<Rightarrow> Some (Inl e, tr @ [CallPoll project_id])
           | Inr d \<Rightarrow>
               (case ready_clips d of
                  Some clips \<Rightarrow> Some (Inr clips, tr @ [CallPoll project_id])
                | None \<Rightarrow>
                    if elapsed + fst (w_get_clips w project_id (Suc poll_no))
                         > of_int (opus_wait_timeout_sec s)
                    then Some (Inl TimeoutError, tr @ [CallPoll project_id])
                    else if opus_poll_interval_sec s < 0
                    then Some (Inl ValueError,
                               tr @ [CallPoll project_id, CallSleep (opus_poll_interval_sec s)])
                    else wait_clips_loop s w project_id
                           (elapsed + fst (w_get_clips w project_id (Suc poll_no))
                              + of_int (opus_poll_interval_sec s))
                           (Suc poll_no)
                           (tr @ [CallPoll project_id, CallSleep (opus_poll_interval_sec s)]))))"

definition wait_exportable_clips ::
  "settings \<Rightarrow> world \<Rightarrow> string \<Rightarrow> ((error + json list) \<times> call list) option" where
  "wait_exportable_clips s w project_id = wait_clips_loop s w project_id 0 0 []"

section \<open>Download and upload\<close>

text \<open>
  \<^verbatim>\<open>download_clips\<close>: the output directory is created first, which may raise; then
  a clip that is not a dict raises \<^verbatim>\<open>AttributeError\<close> at
  \<^verbatim>\<open>clip.get\<close>, a clip whose \<^verbatim>\<open>uriForPreview\<close> is missing or falsy is skipped, any
  other clip is fetched; the first failure ends the loop.
\<close>

fun download_loop :: "world \<Rightarrow> nat \<Rightarrow> json list \<Rightarrow> (error + path list) \<times> call list" where
  "download_loop w idx [] = (Inr [], [])"
| "download_loop w idx (clip # rest) =
     (case dict_get clip ''uriForPreview'' of
        Inl e \<Rightarrow> (Inl e, [])
      | Inr url \<Rightarrow>
          if \<not> (case url of None \<Rightarrow> False | Some u \<Rightarrow> truthy u) then download_loop w (Suc idx) rest
          else
            (case w_fetch w idx clip of
               Inl e \<Rightarrow> (Inl e, [CallFetch idx clip])
             | Inr target \<Rightarrow>
                 (case download_loop w (Suc idx) rest of
                    (Inl e, tr) \<Rightarrow> (Inl e, CallFetch idx clip # tr)
                  | (Inr files, tr) \<Rightarrow> (Inr (target # files), CallFetch idx clip # tr))))"

definition download_clips ::
  "world \<Rightarrow> json list \<Rightarrow> path \<Rightarrow> (error + path list) \<times> call list" where
  "download_clips w clips output_dir =
     (case w_mkdir w output_dir of
        Some e \<Rightarrow> (Inl e, [])
      | None \<Rightarrow> download_loop w 1 clips)"

text \<open>Decimal digits of a number, for the default title \<^verbatim>\<open>f"{prefix} #{idx}"\<close>.\<close>

fun show_nat :: "nat \<Rightarrow> string" where
  "show_nat n =
     (if n < 10 then [char_of (48 + n)] else show_nat (n div 10) @ [char_of (48 + n mod 10)])"

definition py_str :: "world \<Rightarrow> json \<Rightarrow> string" where
  "py_str w v = (case v of JStr x \<Rightarrow> x | _ \<Rightarrow> w_str w v)"

text \<open>
  \<^verbatim>\<open>build_yt_text\<close>: \<^verbatim>\<open>(clip.get("title") or "").strip()\<close> raises
  \<^verbatim>\<open>AttributeError\<close> for a truthy title that is not a string.
\<close>

definition text_part :: "world \<Rightarrow> json option \<Rightarrow> string list" where
  "text_part w v =
     (case v of None \<Rightarrow> [] | Some x \<Rightarrow> (if truthy x then [strip (py_str w x)] else []))"

fun join_paragraphs :: "string list \<Rightarrow> string" where
  "join_paragraphs [] = []"
| "join_paragraphs [x] = x"
| "join_paragraphs (x # y # ys) = x @ [CHR 0x0A, CHR 0x0A] @ join_paragraphs (y # ys)"

definition build_yt_text :: "world \<Rightarrow> json \<Rightarrow> settings \<Rightarrow> nat \<Rightarrow> error + string \<times> string" where
  "build_yt_text w clip s default_idx =
     (case clip of
        JObj kvs \<Rightarrow>
          (let t = (case map_of kvs ''title'' of None \<Rightarrow> JStr [] | Some v \<Rightarrow> (if truthy v then v else JStr []))
           in case t of
                JStr raw \<Rightarrow>
                  (let raw_title = strip raw;
                       title = (if raw_title \<noteq> [] then raw_title
                                else yt_title_prefix s @ '' #'' @ show_nat default_idx);
                       parts = text_part w (map_of kvs ''description'') @ text_part w (map_of kvs ''hashtags'')
                   in Inr (title, join_paragraphs (filter (\<lambda>x. x \<noteq> []) parts)))
              | _ \<Rightarrow> Inl AttributeError)
      | _ \<Rightarrow> Inl AttributeError)"

text \<open>
  The upload loop of \<^verbatim>\<open>run_pipeline_for_vod\<close>; \<^verbatim>\<open>YouTubeUploader.upload\<close> cuts the
  title at 100 and the description at 5000 characters. The first failure ends the loop.
\<close>

fun upload_loop ::
  "settings \<Rightarrow> world \<Rightarrow> json list \<Rightarrow> nat \<Rightarrow> path list \<Rightarrow> (error + unit) \<times> call list" where
  "upload_loop s w clips idx [] = (Inr (), [])"
| "upload_loop s w clips idx (file_path # rest) =
     (case build_yt_text w (if idx - 1 < length clips then clips ! (idx - 1) else JObj []) s idx of
        Inl e \<Rightarrow> (Inl e, [])
      | Inr (title, description) \<Rightarrow>
          (case w_upload w file_path (take 100 title) (take 5000 description) of
             Inl e \<Rightarrow> (Inl e, [CallUpload file_path (take 100 title) (take 5000 description)])
           | Inr video_id \<Rightarrow>
               (case upload_loop s w clips (Suc idx) rest of
                  (r, tr) \<Rightarrow> (r, CallUpload file_path (take 100 title) (take 5000 description) # tr))))"

section \<open>Pipeline orchestrator\<close>

text \<open>
  Stages 2 to 6 of \<^verbatim>\<open>run_pipeline_for_vod\<close>: publish, submit, await, download, upload.
  None of them reads or writes the processed state.
\<close>

definition upload_all :: "settings \<Rightarrow> world \<Rightarrow> json list \<Rightarrow> path list \<Rightarrow> (error + unit) \<times> call list" where
  "upload_all s w clips downloaded_files =
     (case w_uploader_init w of
        Some e \<Rightarrow> (Inl e, [CallUploaderInit])
      | None \<Rightarrow>
          (case upload_loop s w clips 1 downloaded_files of
             (r, tr) \<Rightarrow> (r, CallUploaderInit # tr)))"

text \<open>\<^verbatim>\<open>Path("./downloads") / project_id\<close>: an absolute second part replaces the first.\<close>

definition clips_dir :: "string \<Rightarrow> path" where
  "clips_dir project_id =
     (if startswith project_id ''/'' then project_id else ''downloads/'' @ project_id)"

definition download_and_upload ::
  "settings \<Rightarrow> world \<Rightarrow> string \<Rightarrow> json list \<Rightarrow> (error + unit) \<times> call list" where
  "download_and_upload s w project_id clips =
     (case download_clips w clips (clips_dir project_id) of
        (Inl e, tr) \<Rightarrow> (Inl e, tr)
      | (Inr downloaded_files, tr) \<Rightarrow>
          (case upload_all s w clips downloaded_files of (r, tr') \<Rightarrow> (r, tr @ tr')))"

definition run_stages :: "settings \<Rightarrow> world \<Rightarrow> path \<Rightarrow> ((error + unit) \<times> call list) option" where
  "run_stages s w vod_path =
     (case publish_vod s w vod_path of
        (Inl e, tr1) \<Rightarrow> Some (Inl e, tr1)
      | (Inr video_url, tr1) \<Rightarrow>
          (case create_clip_project w video_url of
             Inl e \<Rightarrow> Some (Inl e, tr1 @ [CallSubmit video_url])
           | Inr project_id \<Rightarrow>
               (case wait_exportable_clips s w project_id of
                  None \<Rightarrow> None
                | Some (Inl e, tr2) \<Rightarrow> Some (Inl e, tr1 @ [CallSubmit video_url] @ tr2)
                | Some (Inr clips, tr2) \<Rightarrow>
                    (case download_and_upload s w project_id clips of
                       (r, tr3) \<Rightarrow> Some (r, tr1 @ [CallSubmit video_url] @ tr2 @ tr3)))))"

text \<open>
  The commit of \<^verbatim>\<open>run_pipeline_for_vod\<close>:
  \<^verbatim>\<open>processed.setdefault("processed_files", [])\<close>, then \<^verbatim>\<open>.append(key)\<close>, which raises
  \<^verbatim>\<open>AttributeError\<close> when the entry is not a list, then \<^verbatim>\<open>save_processed\<close>. The
  in-memory state is changed before the file is written, and nothing undoes the change
  when the save raises.
\<close>

definition setdefault_files :: "(string \<times> json) list \<Rightarrow> (string \<times> json) list" where
  "setdefault_files kvs =
     (case map_of kvs ''processed_files'' of
        None \<Rightarrow> kvs @ [(''processed_files'', JArr [])]
      | Some v \<Rightarrow> kvs)"

definition dict_set :: "(string \<times> json) list \<Rightarrow> string \<Rightarrow> json \<Rightarrow> (string \<times> json) list" where
  "dict_set kvs k v = map (\<lambda>kv. if fst kv = k then (k, v) else kv) kvs"

definition append_processed :: "json \<Rightarrow> string \<Rightarrow> error + json" where
  "append_processed processed key =
     (case processed of
        JObj kvs \<Rightarrow>
          (case map_of (setdefault_files kvs) ''processed_files'' of
             Some (JArr xs) \<Rightarrow>
               Inr (JObj (dict_set (setdefault_files kvs) ''processed_files'' (JArr (xs @ [JStr key]))))
           | _ \<Rightarrow> Inl AttributeError)
      | _ \<Rightarrow> Inl AttributeError)"

datatype finished = Skipped | Completed

record run =
  r_outcome :: "error + finished"
  r_processed :: json
  r_disk :: file_content
  r_calls :: "call list"

definition save_processed ::
  "world \<Rightarrow> path \<Rightarrow> json \<Rightarrow> file_content \<Rightarrow> error option \<times> file_content" where
  "save_processed w file state disk =
     (case w_save w file state of
        Saved \<Rightarrow> (None, Holds state)
      | RaisedBeforeOpen e \<Rightarrow> (Some e, disk)
      | RaisedAfterOpen e left \<Rightarrow> (Some e, left))"

definition commit :: "settings \<Rightarrow> world \<Rightarrow> json \<Rightarrow> file_content \<Rightarrow> string \<Rightarrow> call list \<Rightarrow> run" where
  "commit s w processed disk key tr =
     (case append_processed processed key of
        Inl e \<Rightarrow> \<lparr> r_outcome = Inl e, r_processed = processed, r_disk = disk, r_calls = tr \<rparr>
      | Inr processed' \<Rightarrow>
          (case save_processed w (processed_state_file s) processed' disk of
             (None, disk') \<Rightarrow>
               \<lparr> r_outcome = Inr Completed, r_processed = processed', r_disk = disk',
                 r_calls = tr @ [CallSave (processed_state_file s) processed'] \<rparr>
           | (Some e, disk') \<Rightarrow>
               \<lparr> r_outcome = Inl e, r_processed = processed', r_disk = disk',
                 r_calls = tr @ [CallSave (processed_state_file s) processed'] \<rparr>))"

text \<open>
  \<^verbatim>\<open>run_pipeline_for_vod\<close>. The result is the outcome (an exception, a skip or a
  completed run), the in-memory state and the state file after the call, and the calls
  made; \<open>None\<close> when the wait for the clips never ends.
\<close>

definition run_pipeline_for_vod ::
  "settings \<Rightarrow> world \<Rightarrow> json \<Rightarrow> file_content \<Rightarrow> path \<Rightarrow> run option" where
  "run_pipeline_for_vod s w processed disk vod_path =
     (if \<not> exists_path (w_fs w) vod_path
      then Some \<lparr> r_outcome = Inl FileNotFoundError, r_processed = processed, r_disk = disk, r_calls = [] \<rparr>
      else
        (case seen_of processed of
           Inl e \<Rightarrow> Some \<lparr> r_outcome = Inl e, r_processed = processed, r_disk = disk, r_calls = [] \<rparr>
         | Inr seen \<Rightarrow>
             if JStr (fs_resolve (w_fs w) vod_path) \<in> set seen
             then Some \<lparr> r_outcome = Inr Skipped, r_processed = processed, r_disk = disk, r_calls = [] \<rparr>
             else
               (case run_stages s w vod_path of
                  None \<Rightarrow> None
                | Some (Inl e, tr) \<Rightarrow>
                    Some \<lparr> r_outcome = Inl e, r_processed = processed, r_disk = disk, r_calls = tr \<rparr>
                | Some (Inr u, tr) \<Rightarrow>
                    Some (commit s w processed disk (fs_resolve (w_fs w) vod_path) tr))))"

section \<open>VOD locator, webhook strategy\<close>

definition rewrite_source_path :: "settings \<Rightarrow> fsys \<Rightarrow> string \<Rightarrow> path" where
  "rewrite_source_path s fs raw_path =
     fs_resolve fs
       (if source_path_rewrite_from s \<noteq> [] \<and> source_path_rewrite_to s \<noteq> []
           \<and> startswith raw_path (source_path_rewrite_from s)
        then source_path_rewrite_to s @ drop (length (source_path_rewrite_from s)) raw_path
        else raw_path)"

definition size_key :: "fsys \<Rightarrow> path \<Rightarrow> int" where
  "size_key fs p = (case fs_stat fs p of None \<Rightarrow> 0 | Some st \<Rightarrow> - st_size st)"

definition largest_media_in_dir :: "fsys \<Rightarrow> path \<Rightarrow> string list \<Rightarrow> path option" where
  "largest_media_in_dir fs directory extensions =
     (if \<not> exists_path fs directory then None
      else
        (case sort_key (size_key fs)
                (filter (\<lambda>p. is_file fs p \<and> lower (path_suffix p) \<in> set extensions)
                   (fs_iterdir fs directory)) of
           [] \<Rightarrow> None
         | c # cs \<Rightarrow> Some c))"

text \<open>
  The \<^verbatim>\<open>for key in ("path_downloaded_vod", "path_playlist")\<close> loop: the stripped values
  that are non-empty strings.
\<close>

definition direct_path :: "json option \<Rightarrow> string list" where
  "direct_path v = (case v of Some (JStr x) \<Rightarrow> (if strip x \<noteq> [] then [strip x] else []) | _ \<Rightarrow> [])"

text \<open>The \<^verbatim>\<open>for raw in direct_paths\<close> loop; \<open>None\<close> when no direct path resolves.\<close>

fun resolve_direct :: "settings \<Rightarrow> fsys \<Rightarrow> string list \<Rightarrow> path option" where
  "resolve_direct s fs [] = None"
| "resolve_direct s fs (raw # rest) =
     (let p = rewrite_source_path s fs raw in
      if exists_path fs p \<and> is_file fs p
      then
        (if lower (path_suffix p) \<in> set (vod_extensions s) then Some p
         else if lower (path_suffix p) \<in> {''.m3u8'', ''.txt''}
         then (case largest_media_in_dir fs (path_parent p) (vod_extensions s) of
                 Some cand \<Rightarrow> Some cand
               | None \<Rightarrow> resolve_direct s fs rest)
         else resolve_direct s fs rest)
      else resolve_direct s fs rest)"

text \<open>The basename fallback; it reads the processed state only when a file matches.\<close>

definition resolve_basename ::
  "settings \<Rightarrow> world \<Rightarrow> (string \<times> json) list \<Rightarrow> json \<Rightarrow> error + path option" where
  "resolve_basename s w vod processed =
     (let fs = w_fs w;
          basename = strip (py_str w (case map_of vod ''basename'' of None \<Rightarrow> JStr [] | Some v \<Rightarrow> v))
      in if basename \<noteq> [] \<and> exists_path fs (watch_dir s)
         then
           (let matching = filter (\<lambda>p. is_file fs p \<and> lower (path_suffix p) \<in> set (vod_extensions s)
                                          \<and> contains (path_name p) basename)
                             (fs_rglob fs (watch_dir s))
            in if matching = [] then Inr None
               else
                 (case seen_of processed of
                    Inl e \<Rightarrow> Inl e
                  | Inr seen \<Rightarrow>
                      (let unseen = filter (\<lambda>p. JStr (fs_resolve fs p) \<notin> set seen) matching;
                           use = (if unseen \<noteq> [] then unseen else matching)
                       in case sort_key (mtime_key fs) use of
                            [] \<Rightarrow> Inl IndexError
                          | chosen # others \<Rightarrow> Inr (Some chosen))))
         else Inr None)"

definition resolve_vod_from_webhook ::
  "settings \<Rightarrow> world \<Rightarrow> json \<Rightarrow> json \<Rightarrow> error + path option" where
  "resolve_vod_from_webhook s w payload processed =
     (case payload of
        JObj kvs \<Rightarrow>
          if map_of kvs ''action'' \<noteq> Some (JStr ''end_download'') then Inr None
          else
            (let dat = (case map_of kvs ''data'' of Some (JObj d) \<Rightarrow> d | _ \<Rightarrow> []);
                 vod = (case map_of dat ''vod'' of Some (JObj v) \<Rightarrow> v | _ \<Rightarrow> []);
                 direct_paths = direct_path (map_of vod ''path_downloaded_vod'')
                                  @ direct_path (map_of vod ''path_playlist'')
             in case resolve_direct s (w_fs w) direct_paths of
                  Some p \<Rightarrow> Inr (Some p)
                | None \<Rightarrow> resolve_basename s w vod processed)
      | _ \<Rightarrow> Inl AttributeError)"

section \<open>Webhook intake\<close>

text \<open>
  \<^verbatim>\<open>int(text)\<close> for a header value (header text is Latin-1): surrounding whitespace,
  which for \<^verbatim>\<open>int\<close> is U+0009 to U+000D, U+0020, U+0085 and U+00A0; one optional sign;
  decimal digits with single underscores between them; and \<^verbatim>\<open>ValueError\<close> for more
  digits than the interpreter's limit (\<^verbatim>\<open>sys.get_int_max_str_digits()\<close>, 4300 unless
  configured, 0 for no limit). \<open>None\<close> is \<^verbatim>\<open>ValueError\<close>.
\<close>

definition is_int_space :: "char \<Rightarrow> bool" where
  "is_int_space c =
     ((9 \<le> (of_char c :: nat) \<and> (of_char c :: nat) \<le> 13)
      \<or> (of_char c :: nat) = 32 \<or> (of_char c :: nat) = 133 \<or> (of_char c :: nat) = 160)"

definition int_strip :: "string \<Rightarrow> string" where
  "int_strip s = rev (dropWhile is_int_space (rev (dropWhile is_int_space s)))"

definition is_digit :: "char \<Rightarrow> bool" where
  "is_digit c = (of_char (CHR ''0'') \<le> (of_char c :: nat) \<and> (of_char c :: nat) \<le> of_char (CHR ''9''))"

fun digits_ok :: "string \<Rightarrow> bool" where
  "digits_ok [] = False"
| "digits_ok [c] = is_digit c"
| "digits_ok (c # d # cs) =
     (is_digit c \<and> (if d = CHR ''_'' then digits_ok cs else digits_ok (d # cs)))"

definition digits_value :: "string \<Rightarrow> int" where
  "digits_value ds =
     foldl (\<lambda>a c. 10 * a + int ((of_char c :: nat) - of_char (CHR ''0''))) 0
       (filter (\<lambda>c. c \<noteq> CHR ''_'') ds)"

definition digits_in_limit :: "nat \<Rightarrow> string \<Rightarrow> bool" where
  "digits_in_limit max_str_digits ds =
     (max_str_digits = 0 \<or> length (filter is_digit ds) \<le> max_str_digits)"

definition py_int :: "nat \<Rightarrow> string \<Rightarrow> int option" where
  "py_int max_str_digits text =
     (case int_strip text of
        [] \<Rightarrow> None
      | c # cs \<Rightarrow>
          if c = CHR ''-''
          then (if digits_ok cs \<and> digits_in_limit max_str_digits cs
                then Some (- digits_value cs) else None)
          else if c = CHR ''+''
          then (if digits_ok cs \<and> digits_in_limit max_str_digits cs
                then Some (digits_value cs) else None)
          else if digits_ok (c # cs) \<and> digits_in_limit max_str_digits (c # cs)
          then Some (digits_value (c # cs)) else None)"

text \<open>
  A request: its path, its headers by name, and what \<^verbatim>\<open>self.rfile.read(n)\<close> does on
  its connection for a positive \<open>n\<close> that fits an index: it returns bytes (the first
  \<open>n\<close> of the body when the client sends that many), raises (\<^verbatim>\<open>MemoryError\<close>, a
  connection error), or waits for bytes that never come. For an \<open>n\<close> beyond
  \<^verbatim>\<open>sys.maxsize\<close> the read raises \<^verbatim>\<open>OverflowError\<close>. \<open>h_loads\<close> is
  \<^verbatim>\<open>json.loads(raw.decode("utf-8"))\<close>, \<open>None\<close> when it raises. The handler answers
  with a status, raises before it answers, or never answers.
\<close>

datatype read_result = ReadBytes string | ReadRaises error | ReadBlocks

record request =
  req_path :: string
  req_headers :: "string \<Rightarrow> string option"
  req_read :: "int \<Rightarrow> read_result"

record handler =
  h_settings :: "settings option"
  h_loads :: "string \<Rightarrow> json option"
  h_max_str_digits :: nat
  h_maxsize :: int

datatype response = Status nat | Unhandled error | NoResponse

definition header_or :: "request \<Rightarrow> string \<Rightarrow> string \<Rightarrow> string" where
  "header_or req name dflt = (case req_headers req name of None \<Rightarrow> dflt | Some v \<Rightarrow> v)"

definition content_length :: "handler \<Rightarrow> request \<Rightarrow> int" where
  "content_length h req =
     (case py_int (h_max_str_digits h) (header_or req ''Content-Length'' ''0'') of
        None \<Rightarrow> 0
      | Some n \<Rightarrow> n)"

definition rfile_read :: "handler \<Rightarrow> request \<Rightarrow> int \<Rightarrow> read_result" where
  "rfile_read h req n = (if n > h_maxsize h then ReadRaises OverflowError else req_read req n)"

definition read_body :: "handler \<Rightarrow> request \<Rightarrow> read_result" where
  "read_body h req =
     (if content_length h req > 0 then rfile_read h req (content_length h req)
      else ReadBytes ''{}'')"

definition do_POST :: "handler \<Rightarrow> json list \<Rightarrow> request \<Rightarrow> response \<times> json list" where
  "do_POST h event_queue req =
     (case h_settings h of
        None \<Rightarrow> (Status 500, event_queue)
      | Some s \<Rightarrow>
          if req_path req \<noteq> webhook_path s then (Status 404, event_queue)
          else if webhook_token s \<noteq> [] \<and> header_or req ''X-Webhook-Token'' [] \<noteq> webhook_token s
          then (Status 401, event_queue)
          else
            (case read_body h req of
               ReadRaises e \<Rightarrow> (Unhandled e, event_queue)
             | ReadBlocks \<Rightarrow> (NoResponse, event_queue)
             | ReadBytes raw \<Rightarrow>
                 (case h_loads h raw of
                    None \<Rightarrow> (Status 400, event_queue)
                  | Some payload \<Rightarrow>
                      (case dict_get payload ''action'' of
                         Inl e \<Rightarrow> (Unhandled e, event_queue)
                       | Inr action \<Rightarrow> (Status 200, event_queue @ [payload])))))"

section \<open>Trigger loops\<close>

text \<open>
  The webhook branch of \<^verbatim>\<open>main\<close>, run on the events that arrive, each with the
  collaborators as they are while it is handled. \<^verbatim>\<open>handled\<close> counts the orchestrator
  calls that return without an exception. The loop ends by \<^verbatim>\<open>break\<close> (\<open>Exited\<close>) or
  by an exception outside the \<^verbatim>\<open>try\<close> around the run (\<open>Crashed\<close>); both pass through
  \<^verbatim>\<open>finally: server.shutdown()\<close>. With no event left it waits on the queue
  (\<open>Waiting\<close>); \<open>Stuck\<close> is a run that never returns.
\<close>

datatype loop_end = Exited | Crashed error | Waiting | Stuck

record loop_state =
  l_end :: loop_end
  l_shutdown :: bool
  l_processed :: json
  l_disk :: file_content
  l_handled :: nat
  l_consumed :: nat
  l_runs :: "(path \<times> (error + finished)) list"

fun main_webhook_loop ::
  "settings \<Rightarrow> json \<Rightarrow> file_content \<Rightarrow> nat \<Rightarrow> nat \<Rightarrow> (path \<times> (error + finished)) list
     \<Rightarrow> (json \<times> world) list \<Rightarrow> loop_state" where
  "main_webhook_loop s processed disk handled consumed runs [] =
     \<lparr> l_end = Waiting, l_shutdown = False, l_processed = processed, l_disk = disk,
       l_handled = handled, l_consumed = consumed, l_runs = runs \<rparr>"
| "main_webhook_loop s processed disk handled consumed runs ((payload, w) # rest) =
     (case resolve_vod_from_webhook s w payload processed of
        Inl e \<Rightarrow>
          \<lparr> l_end = Crashed e, l_shutdown = True, l_processed = processed, l_disk = disk,
            l_handled = handled, l_consumed = Suc consumed, l_runs = runs \<rparr>
      | Inr None \<Rightarrow> main_webhook_loop s processed disk handled (Suc consumed) runs rest
      | Inr (Some vod_path) \<Rightarrow>
          (case run_pipeline_for_vod s w processed disk vod_path of
             None \<Rightarrow>
               \<lparr> l_end = Stuck, l_shutdown = False, l_processed = processed, l_disk = disk,
                 l_handled = handled, l_consumed = Suc consumed, l_runs = runs \<rparr>
           | Some r \<Rightarrow>
               (let handled' = (case r_outcome r of Inl e \<Rightarrow> handled | Inr d \<Rightarrow> Suc handled) in
                if run_once s \<and> handled' \<ge> 1
                then \<lparr> l_end = Exited, l_shutdown = True, l_processed = r_processed r,
                       l_disk = r_disk r, l_handled = handled', l_consumed = Suc consumed,
                       l_runs = runs @ [(vod_path, r_outcome r)] \<rparr>
                else main_webhook_loop s (r_processed r) (r_disk r) handled' (Suc consumed)
                       (runs @ [(vod_path, r_outcome r)]) rest)))"

text \<open>
  One pass of the poll branch of \<^verbatim>\<open>main\<close>: the locator, then the orchestrator, every
  exception of either caught and logged; \<open>p_now\<close> is the clock after the pass, the
  run taking \<open>w_run_seconds\<close>. \<open>None\<close> when the locator or the run never returns.
\<close>

record pass =
  p_logged :: "error option"
  p_vod :: "path option"
  p_processed :: json
  p_disk :: file_content
  p_now :: rat
  p_calls :: "call list"

definition poll_pass ::
  "settings \<Rightarrow> timeline \<Rightarrow> world \<Rightarrow> json \<Rightarrow> file_content \<Rightarrow> rat \<Rightarrow> pass option" where
  "poll_pass s tln w processed disk now =
     (case wait_for_finished_vod s tln processed now of
        None \<Rightarrow> None
      | Some (Inl e, now') \<Rightarrow>
          Some \<lparr> p_logged = Some e, p_vod = None, p_processed = processed, p_disk = disk,
                 p_now = now', p_calls = [] \<rparr>
      | Some (Inr vod_path, now') \<Rightarrow>
          (case run_pipeline_for_vod s w processed disk vod_path of
             None \<Rightarrow> None
           | Some r \<Rightarrow>
               Some \<lparr> p_logged = (case r_outcome r of Inl e \<Rightarrow> Some e | Inr d \<Rightarrow> None),
                      p_vod = Some vod_path, p_processed = r_processed r, p_disk = r_disk r,
                      p_now = now' + w_run_seconds w, p_calls = r_calls r \<rparr>))"

text \<open>
  The \<^verbatim>\<open>while True\<close> loop around it: \<^verbatim>\<open>break\<close> after the first pass when
  \<^verbatim>\<open>run_once\<close> is set, otherwise a sleep of \<^verbatim>\<open>max(10, poll_interval_sec)\<close> and the
  next pass, with the collaborators of that pass. The result is the list of passes made.
\<close>

partial_function (option) main_poll_loop ::
  "settings \<Rightarrow> timeline \<Rightarrow> (nat \<Rightarrow> world) \<Rightarrow> json \<Rightarrow> file_content \<Rightarrow> rat \<Rightarrow> nat \<Rightarrow> pass list
     \<Rightarrow> pass list option" where
  "main_poll_loop s tln ws processed disk now i done_passes =
     (case poll_pass s tln (ws i) processed disk now of
        None \<Rightarrow> None
      | Some ps \<Rightarrow>
          if run_once s then Some (done_passes @ [ps])
          else main_poll_loop s tln ws (p_processed ps) (p_disk ps)
                 (p_now ps + of_int (max 10 (poll_interval_sec s))) (Suc i) (done_passes @ [ps]))"

section \<open>The polls of the clip wait, seen from outside\<close>

text \<open>
  The outcome of the \<open>n\<close>-th poll (an exception, the clips, or no clips yet), the time
  elapsed since \<^verbatim>\<open>started\<close> when the loop is entered after \<open>n\<close> polls and when the
  \<open>n\<close>-th reply is in, and the calls of \<open>n\<close> rounds of poll and sleep.
\<close>

definition poll_clips :: "world \<Rightarrow> string \<Rightarrow> nat \<Rightarrow> error + json list option" where
  "poll_clips w project_id n =
     (case snd (w_get_clips w project_id n) of
        Inl e \<Rightarrow> Inl e
      | Inr body \<Rightarrow>
          (case dict_get body ''data'' of Inl e \<Rightarrow> Inl e | Inr d \<Rightarrow> Inr (ready_clips d)))"

fun entry_elapsed :: "settings \<Rightarrow> world \<Rightarrow> string \<Rightarrow> nat \<Rightarrow> rat" where
  "entry_elapsed s w project_id 0 = 0"
| "entry_elapsed s w project_id (Suc n) =
     entry_elapsed s w project_id n + fst (w_get_clips w project_id (Suc n))
       + of_int (opus_poll_interval_sec s)"

definition reply_elapsed :: "settings \<Rightarrow> world \<Rightarrow> string \<Rightarrow> nat \<Rightarrow> rat" where
  "reply_elapsed s w project_id n =
     entry_elapsed s w project_id (n - 1) + fst (w_get_clips w project_id n)"

definition poll_calls :: "settings \<Rightarrow> string \<Rightarrow> nat \<Rightarrow> call list" where
  "poll_calls s project_id n =
     concat (replicate n [CallPoll project_id, CallSleep (opus_poll_interval_sec s)])"

section \<open>The poll locator, seen from outside\<close>

text \<open>
  What the scan of one cycle does with a candidate it examines at time \<open>t\<close>, said of
  the file system alone. The candidate is \<open>skipped\<close> when its canonical path is in the
  ProcessedSet snapshot, or it is smaller than the minimum, or it was modified less than
  the stability window ago. It is \<open>eligible\<close> when none of these holds. An eligible
  candidate is sampled twice, one sampling interval apart; \<open>size_changed\<close> and
  \<open>size_kept\<close> compare the two samples.
\<close>

definition skipped :: "settings \<Rightarrow> fsys \<Rightarrow> json list \<Rightarrow> rat \<Rightarrow> path \<Rightarrow> bool" where
  "skipped s fs seen t q =
     (JStr (fs_resolve fs q) \<in> set seen
      \<or> (case fs_stat fs q of
            None \<Rightarrow> False
          | Some st \<Rightarrow> st_size st < min_vod_size_mb s * 1024 * 1024
                        \<or> t - st_mtime st < of_int (stable_for_sec s)))"

definition eligible :: "settings \<Rightarrow> fsys \<Rightarrow> json list \<Rightarrow> rat \<Rightarrow> path \<Rightarrow> bool" where
  "eligible s fs seen t q =
     (JStr (fs_resolve fs q) \<notin> set seen
      \<and> (case fs_stat fs q of
            None \<Rightarrow> False
          | Some st \<Rightarrow> min_vod_size_mb s * 1024 * 1024 \<le> st_size st
                        \<and> of_int (stable_for_sec s) \<le> t - st_mtime st))"

definition size_changed :: "timeline \<Rightarrow> rat \<Rightarrow> rat \<Rightarrow> path \<Rightarrow> bool" where
  "size_changed tln t t' q =
     (case fs_stat (tln t) q of
        None \<Rightarrow> False
      | Some st \<Rightarrow> (case fs_stat (tln t') q of None \<Rightarrow> False | Some st' \<Rightarrow> st_size st' \<noteq> st_size st))"

definition size_kept :: "timeline \<Rightarrow> rat \<Rightarrow> rat \<Rightarrow> path \<Rightarrow> bool" where
  "size_kept tln t t' q =
     (case fs_stat (tln t) q of
        None \<Rightarrow> False
      | Some st \<Rightarrow> (case fs_stat (tln t') q of None \<Rightarrow> False | Some st' \<Rightarrow> st_size st' = st_size st))"

text \<open>
  \<open>passed_over s tln seen t qs t'\<close>: examined in this order from time \<open>t\<close> on, every
  candidate of \<open>qs\<close> is skipped, or is eligible and changes its size over the sampling
  interval that its examination takes; the last examination ends at time \<open>t'\<close>.
\<close>

fun passed_over ::
  "settings \<Rightarrow> timeline \<Rightarrow> json list \<Rightarrow> rat \<Rightarrow> path list \<Rightarrow> rat \<Rightarrow> bool" where
  "passed_over s tln seen t [] t' = (t' = t)"
| "passed_over s tln seen t (q # qs) t' =
     ((skipped s (tln t) seen t q \<and> passed_over s tln seen t qs t')
      \<or> (eligible s (tln t) seen t q
          \<and> size_changed tln t (t + of_int (sample_interval (stable_for_sec s))) q
          \<and> passed_over s tln seen (t + of_int (sample_interval (stable_for_sec s))) qs t'))"

text \<open>
  \<open>cycle_begins s tln seen now c\<close>: a cycle of the call made at time \<open>now\<close> begins at
  time \<open>c\<close>. The first cycle begins at \<open>now\<close>; the next one begins a poll interval
  after a cycle that passed over all its candidates.
\<close>

inductive cycle_begins :: "settings \<Rightarrow> timeline \<Rightarrow> json list \<Rightarrow> rat \<Rightarrow> rat \<Rightarrow> bool"
  for s :: settings and tln :: timeline and seen :: "json list" and now :: rat where
  first_cycle: "cycle_begins s tln seen now now"
| next_cycle:
    "cycle_begins s tln seen now c \<Longrightarrow> list_vod_candidates s (tln c) = Inr cands \<Longrightarrow>
     passed_over s tln seen c cands t \<Longrightarrow> 0 \<le> poll_interval_sec s \<Longrightarrow>
     cycle_begins s tln seen now (t + of_int (poll_interval_sec s))"


section \<open>A concrete environment\<close>

text \<open>
  The scenario of the specification: a 500 MB \<^verbatim>\<open>.ts\<close> file in the watch directory,
  published at \<^verbatim>\<open>https://host/abc.ts\<close>, project \<^verbatim>\<open>p1\<close>, no clip at the first poll
  and two clips at the second, both downloaded and uploaded. With \<open>save_ok\<close> unset the
  disk is full: the state file is opened, which empties it, and the write fails.
\<close>

definition fs_one :: "path \<Rightarrow> int \<Rightarrow> rat \<Rightarrow> fsys" where
  "fs_one p sz mt =
     \<lparr> fs_stat = (\<lambda>q. if q = p then Some \<lparr> st_kind = RegularFile, st_size = sz, st_mtime = mt \<rparr>
                         else if q = ''/vods'' then Some \<lparr> st_kind = Directory, st_size = 0, st_mtime = 0 \<rparr>
                         else None),
       fs_rglob = (\<lambda>d. [p]), fs_iterdir = (\<lambda>d. [p]), fs_resolve = (\<lambda>q. q) \<rparr>"

definition clip_a :: json where
  "clip_a = JObj [(''id'', JStr ''c1''), (''uriForPreview'', JStr ''https://cdn/c1.mp4''),
                  (''title'', JStr ''First'')]"

definition clip_b :: json where
  "clip_b = JObj [(''id'', JStr ''c2''), (''uriForPreview'', JStr ''https://cdn/c2.mp4'')]"

definition demo_world :: "fsys \<Rightarrow> bool \<Rightarrow> world" where
  "demo_world fs save_ok =
     \<lparr> w_fs = fs,
       w_publish_local = (\<lambda>p. Inr ''https://host/abc.ts''),
       w_publish_dropbox = (\<lambda>p. Inl HTTPError),
       w_post_project = (\<lambda>u. Inr (JObj [(''projectId'', JStr ''p1'')])),
       w_get_clips = (\<lambda>pid n. (0, Inr (JObj [(''data'', JArr (if n < 2 then [] else [clip_a, clip_b]))]))),
       w_mkdir = (\<lambda>d. None),
       w_fetch = (\<lambda>i c. Inr (''downloads/p1/'' @ show_nat i @ ''.mp4'')),
       w_uploader_init = None,
       w_upload = (\<lambda>f t d. Inr ''vid''),
       w_save = (\<lambda>file state. if save_ok then Saved else RaisedAfterOpen OSError Corrupt),
       w_str = (\<lambda>v. []),
       w_run_seconds = 600 \<rparr>"

definition demo_settings :: settings where
  "demo_settings =
     \<lparr> trigger_mode = ''webhook'', webhook_path = ''/webhook/livestreamdvr'',
       webhook_token = ''secret'', watch_dir = ''/vods'',
       vod_extensions = [''.ts'', ''.mp4'', ''.mkv''],
       poll_interval_sec = 20, stable_for_sec = 120, min_vod_size_mb = 200,
       processed_state_file = ''/state/processed_vods.json'',
       source_path_rewrite_from = ''/recorder'', source_path_rewrite_to = ''/vods'',
       publish_mode = ''local_http'', opus_wait_timeout_sec = 300, opus_poll_interval_sec = 15,
       yt_title_prefix = ''Short clip'', run_once = True, explicit_vod_file = None \<rparr>"

definition empty_state :: json where
  "empty_state = JObj [(''processed_files'', JArr [])]"

definition state_a :: json where
  "state_a = JObj [(''processed_files'', JArr [JStr ''/vods/a.ts''])]"

definition demo_calls :: "path \<Rightarrow> call list" where
  "demo_calls vod =
     [CallPublish vod, CallSubmit ''https://host/abc.ts'',
      CallPoll ''p1'', CallSleep 15, CallPoll ''p1'',
      CallFetch 1 clip_a, CallFetch 2 clip_b, CallUploaderInit,
      CallUpload ''downloads/p1/1.mp4'' ''First'' [],
      CallUpload ''downloads/p1/2.mp4'' ''Short clip #2'' []]"

text \<open>
  A handler on a 64-bit interpreter with the default digit limit, whose
  \<^verbatim>\<open>json.loads\<close> is given on five bodies: the empty object, the empty list, the
  text of one recorder event, and the empty text and a cut-off text, which do not
  parse. A request of a client that sends a body and closes the connection.
\<close>

definition demo_event :: json where
  "demo_event =
     JObj [(''action'', JStr ''end_download''),
           (''data'', JObj [(''vod'', JObj [(''path_downloaded_vod'', JStr ''/recorder/a.ts''),
                                             (''basename'', JStr ''a'')])])]"

definition event_text :: string where
  \<open>event_text = ''{"action": "end_download", "data": {"vod": {"path_downloaded_vod": "/recorder/a.ts", "basename": "a"}}}''\<close>

definition demo_loads :: "string \<Rightarrow> json option" where
  "demo_loads raw =
     (if raw = ''{}'' then Some (JObj [])
      else if raw = ''[]'' then Some (JArr [])
      else if raw = event_text then Some demo_event
      else None)"

definition demo_handler :: handler where
  "demo_handler =
     \<lparr> h_settings = Some demo_settings, h_loads = demo_loads, h_max_str_digits = 4300,
       h_maxsize = 9223372036854775807 \<rparr>"

definition demo_request :: "string option \<Rightarrow> string \<Rightarrow> request" where
  "demo_request content_length_header body =
     \<lparr> req_path = ''/webhook/livestreamdvr'',
       req_headers = (\<lambda>name. if name = ''X-Webhook-Token'' then Some ''secret''
                              else if name = ''Content-Length'' then content_length_header
                              else None),
       req_read = (\<lambda>n. ReadBytes (take (nat n) body)) \<rparr>"



text \<open>The same collaborators, with a publish adapter that fails.\<close>

definition failing_world :: world where
  "failing_world =
     (demo_world (fs_one ''/vods/a.ts'' 524288000 0) True) \<lparr> w_publish_local := (\<lambda>p. Inl HTTPError) \<rparr>"

text \<open>A watch directory whose recording is gone from second 210 on.\<close>

definition vanishing :: timeline where
  "vanishing t = (if t < 210 then fs_one ''/vods/a.ts'' 524288000 0
                  else fs_one ''/vods/other.tmp'' 0 0)"

text \<open>
  A watch directory with two recordings, listed oldest first: \<^verbatim>\<open>a.ts\<close> is finished,
  the newer \<^verbatim>\<open>b.ts\<close> grows at second 210; in \<open>growing_then_gone\<close> the finished
  recording is removed at second 250. And a directory whose one recording is touched at
  second 230 without a change of size.
\<close>

definition fs_two :: "int \<Rightarrow> bool \<Rightarrow> fsys" where
  "fs_two size_b a_exists =
     \<lparr> fs_stat = (\<lambda>q. if q = ''/vods/a.ts'' \<and> a_exists
                         then Some \<lparr> st_kind = RegularFile, st_size = 524288000, st_mtime = 0 \<rparr>
                         else if q = ''/vods/b.ts''
                         then Some \<lparr> st_kind = RegularFile, st_size = size_b, st_mtime = 50 \<rparr>
                         else if q = ''/vods''
                         then Some \<lparr> st_kind = Directory, st_size = 0, st_mtime = 50 \<rparr>
                         else None),
       fs_rglob = (\<lambda>d. [''/vods/a.ts'', ''/vods/b.ts'']),
       fs_iterdir = (\<lambda>d. [''/vods/a.ts'', ''/vods/b.ts'']),
       fs_resolve = (\<lambda>q. q) \<rparr>"

definition growing :: timeline where
  "growing t = (if t < 210 then fs_two 300000000 True else fs_two 400000000 True)"

definition growing_then_gone :: timeline where
  "growing_then_gone t =
     (if t < 210 then fs_two 300000000 True
      else if t < 250 then fs_two 400000000 True
      else fs_two 400000000 False)"


text \<open>A clip service that never has clips, and settings with another timeout.\<close>

definition never_ready_world :: world where
  "never_ready_world =
     (demo_world (fs_one ''/vods/a.ts'' 524288000 0) True)
       \<lparr> w_get_clips := (\<lambda>pid n. (0, Inr (JObj [(''data'', JArr [])]))) \<rparr>"

definition settings_timeout :: "int \<Rightarrow> settings" where
  "settings_timeout t = demo_settings \<lparr> opus_wait_timeout_sec := t \<rparr>"

section \<open>Facts about the processed state\<close>

lemma map_of_dict_set:
  "map_of kvs k = Some u \<Longrightarrow> map_of (dict_set kvs k v) k = Some v"
  by (induction kvs) (auto simp: dict_set_def split: if_splits)

lemma py_set_snoc_str:
  "py_set (JArr xs) = Inr ys \<Longrightarrow> py_set (JArr (xs @ [JStr key])) = Inr (ys @ [JStr key])"
  by (auto split: if_splits)

lemma seen_of_append:
  assumes "seen_of processed = Inr seen" and "append_processed processed key = Inr p'"
  shows "seen_of p' = Inr (seen @ [JStr key])"
proof -
  from assms(2) obtain kvs where kvs: "processed = JObj kvs"
    by (cases processed) (auto simp: append_processed_def)
  show ?thesis
  proof (cases "map_of kvs ''processed_files''")
    case None
    then have sd: "setdefault_files kvs = kvs @ [(''processed_files'', JArr [])]"
      by (simp add: setdefault_files_def)
    have look: "map_of (setdefault_files kvs) ''processed_files'' = Some (JArr [])"
      using None by (simp add: sd map_add_def)
    from assms(1) None kvs have "seen = []"
      by (simp add: seen_of_def dict_get_def)
    moreover from assms(2) kvs look
    have "p' = JObj (dict_set (setdefault_files kvs) ''processed_files'' (JArr ([] @ [JStr key])))"
      by (simp add: append_processed_def)
    ultimately show ?thesis
      using map_of_dict_set [OF look]
      by (simp add: seen_of_def dict_get_def)
  next
    case (Some v)
    then have sd: "setdefault_files kvs = kvs" by (simp add: setdefault_files_def)
    from assms(2) kvs Some sd obtain xs where v: "v = JArr xs"
      by (cases v) (auto simp: append_processed_def)
    from assms(2) kvs Some sd v
    have p': "p' = JObj (dict_set kvs ''processed_files'' (JArr (xs @ [JStr key])))"
      by (simp add: append_processed_def)
    from assms(1) kvs Some v have "py_set (JArr xs) = Inr seen"
      by (simp add: seen_of_def dict_get_def)
    then have "py_set (JArr (xs @ [JStr key])) = Inr (seen @ [JStr key])"
      by (rule py_set_snoc_str)
    then show ?thesis
      using map_of_dict_set [OF Some] by (simp add: p' seen_of_def dict_get_def)
  qed
qed

lemma processed_set_append:
  assumes "seen_of processed = Inr seen" and "append_processed processed key = Inr p'"
  shows "processed_set p' = insert key (processed_set processed)"
  using seen_of_append [OF assms] assms(1) by (auto simp: processed_set_def)

lemma completed_run_commits:
  assumes "run_pipeline_for_vod s w processed disk vod_path = Some r"
    and "r_outcome r = Inr Completed"
  shows "exists_path (w_fs w) vod_path
         \<and> fs_resolve (w_fs w) vod_path \<in> processed_set (r_processed r)"
  using assms
  by (auto simp: run_pipeline_for_vod_def commit_def save_processed_def processed_set_append
           split: if_splits sum.splits option.splits prod.splits save_result.splits)

section \<open>The concrete environment, evaluated\<close>

lemma show_nat_1: "show_nat (Suc 0) = ''1''"
  by code_simp

lemma show_nat_2: "show_nat (Suc (Suc 0)) = ''2''"
  by code_simp

lemma demo_get_clips:
  "w_get_clips (demo_world fs b) pid n
     = (0, Inr (JObj [(''data'', JArr (if n < 2 then [] else [clip_a, clip_b]))]))"
  by (simp add: demo_world_def)

lemma demo_poll_settings:
  "opus_wait_timeout_sec demo_settings = 300" "opus_poll_interval_sec demo_settings = 15"
  by (simp_all add: demo_settings_def)

lemma demo_wait:
  "wait_exportable_clips demo_settings (demo_world fs b) ''p1''
     = Some (Inr [clip_a, clip_b], [CallPoll ''p1'', CallSleep 15, CallPoll ''p1''])"
  apply (simp add: wait_exportable_clips_def)
  apply (subst wait_clips_loop.simps)
  apply (simp add: demo_get_clips demo_poll_settings dict_get_def ready_clips_def)
  apply (subst wait_clips_loop.simps)
  apply (simp add: demo_get_clips demo_poll_settings dict_get_def ready_clips_def)
  done

lemma demo_transfer:
  "download_and_upload demo_settings (demo_world fs b) ''p1'' [clip_a, clip_b]
     = (Inr (),
        [CallFetch 1 clip_a, CallFetch 2 clip_b, CallUploaderInit,
         CallUpload ''downloads/p1/1.mp4'' ''First'' [],
         CallUpload ''downloads/p1/2.mp4'' ''Short clip #2'' []])"
  by (simp add: download_and_upload_def download_clips_def upload_all_def demo_world_def
        clip_a_def clip_b_def dict_get_def build_yt_text_def demo_settings_def text_part_def
        strip_def is_space_def show_nat_1 show_nat_2 del: show_nat.simps)

lemma demo_stages:
  "run_stages demo_settings (demo_world fs b) vod = Some (Inr (), demo_calls vod)"
proof -
  have pub: "publish_vod demo_settings (demo_world fs b) vod
               = (Inr ''https://host/abc.ts'', [CallPublish vod])"
    by (simp add: publish_vod_def demo_settings_def demo_world_def)
  have sub: "create_clip_project (demo_world fs b) ''https://host/abc.ts'' = Inr ''p1''"
    by (simp add: create_clip_project_def demo_world_def extract_project_id_def
          List.map_filter_def nonempty_str_def)
  show ?thesis
    by (simp add: run_stages_def pub sub demo_wait demo_transfer demo_calls_def)
qed

lemma demo_commit:
  "commit demo_settings (demo_world fs b) empty_state (Holds empty_state) ''/vods/a.ts'' tr
   = \<lparr> r_outcome = (if b then Inr Completed else Inl OSError),
       r_processed = state_a,
       r_disk = (if b then Holds state_a else Corrupt),
       r_calls = tr @ [CallSave ''/state/processed_vods.json'' state_a] \<rparr>"
  by (simp add: commit_def save_processed_def append_processed_def setdefault_files_def
        dict_set_def empty_state_def state_a_def demo_world_def demo_settings_def)

lemma demo_run:
  "run_pipeline_for_vod demo_settings (demo_world (fs_one ''/vods/a.ts'' 524288000 0) b)
     empty_state (Holds empty_state) ''/vods/a.ts''
   = Some \<lparr> r_outcome = (if b then Inr Completed else Inl OSError),
            r_processed = state_a,
            r_disk = (if b then Holds state_a else Corrupt),
            r_calls = demo_calls ''/vods/a.ts''
                        @ [CallSave ''/state/processed_vods.json'' state_a] \<rparr>"
proof -
  have fs: "w_fs (demo_world (fs_one ''/vods/a.ts'' 524288000 0) b) = fs_one ''/vods/a.ts'' 524288000 0"
    by (simp add: demo_world_def)
  have ex: "exists_path (fs_one ''/vods/a.ts'' 524288000 0) ''/vods/a.ts''"
    by (simp add: exists_path_def fs_one_def)
  have rs: "fs_resolve (fs_one ''/vods/a.ts'' 524288000 0) ''/vods/a.ts'' = ''/vods/a.ts''"
    by (simp add: fs_one_def)
  have seen: "seen_of empty_state = Inr []"
    by (simp add: seen_of_def empty_state_def dict_get_def)
  show ?thesis
    by (simp add: run_pipeline_for_vod_def fs ex rs seen demo_stages demo_commit)
qed

lemma state_a_set: "processed_set state_a = {''/vods/a.ts''}"
  by (auto simp: processed_set_def state_a_def seen_of_def dict_get_def)

lemma empty_state_set: "processed_set empty_state = {}"
  by (simp add: processed_set_def empty_state_def seen_of_def dict_get_def)

section \<open>Facts about the webhook loop\<close>

lemma webhook_loop_runs:
  assumes "run_once s" and "\<forall>x\<in>set runs. isl (snd x)"
    and "st = main_webhook_loop s processed disk 0 consumed runs events"
  shows "(l_end st = Exited \<longrightarrow>
            l_shutdown st \<and> l_handled st = 1
            \<and> (\<exists>pre vod d. l_runs st = pre @ [(vod, Inr d)] \<and> (\<forall>x\<in>set pre. isl (snd x))))
         \<and> (l_end st \<noteq> Exited \<longrightarrow> l_handled st = 0 \<and> (\<forall>x\<in>set (l_runs st). isl (snd x)))"
  using assms
proof (induction events arbitrary: processed disk consumed runs st)
  case Nil
  then show ?case by simp
next
  case (Cons ev rest)
  obtain payload w where ev: "ev = (payload, w)" by (cases ev)
  show ?case
  proof (cases "resolve_vod_from_webhook s w payload processed")
    case (Inl e)
    with Cons.prems ev show ?thesis by simp
  next
    case (Inr found)
    show ?thesis
    proof (cases found)
      case None
      with Inr Cons.prems ev
      have "st = main_webhook_loop s processed disk 0 (Suc consumed) runs rest" by simp
      from Cons.IH [OF Cons.prems(1,2) this] show ?thesis .
    next
      case (Some vod)
      show ?thesis
      proof (cases "run_pipeline_for_vod s w processed disk vod")
        case None
        with Inr Some Cons.prems ev show ?thesis by simp
      next
        case run: (Some r)
        show ?thesis
        proof (cases "r_outcome r")
          case failed: (Inl e)
          with Inr Some run Cons.prems ev
          have st: "st = main_webhook_loop s (r_processed r) (r_disk r) 0 (Suc consumed)
                      (runs @ [(vod, r_outcome r)]) rest"
            by simp
          have "\<forall>x\<in>set (runs @ [(vod, r_outcome r)]). isl (snd x)"
            using Cons.prems(2) failed by simp
          from Cons.IH [OF Cons.prems(1) this st] show ?thesis .
        next
          case returned: (Inr d)
          with Inr Some run Cons.prems ev show ?thesis by simp
        qed
      qed
    qed
  qed
qed

lemma demo_resolve_failing:
  "resolve_vod_from_webhook demo_settings failing_world demo_event empty_state
     = Inr (Some ''/vods/a.ts'')"
  by code_simp

lemma demo_resolve_ok:
  "resolve_vod_from_webhook demo_settings (demo_world (fs_one ''/vods/a.ts'' 524288000 0) True)
     demo_event empty_state = Inr (Some ''/vods/a.ts'')"
  by code_simp

lemma failing_run:
  "run_pipeline_for_vod demo_settings failing_world empty_state (Holds empty_state) ''/vods/a.ts''
   = Some \<lparr> r_outcome = Inl HTTPError, r_processed = empty_state, r_disk = Holds empty_state,
            r_calls = [CallPublish ''/vods/a.ts''] \<rparr>"
  by code_simp

lemma demo_loop:
  "main_webhook_loop demo_settings empty_state (Holds empty_state) 0 0 []
     [(demo_event, failing_world),
      (demo_event, demo_world (fs_one ''/vods/a.ts'' 524288000 0) True),
      (demo_event, failing_world)]
   = \<lparr> l_end = Exited, l_shutdown = True, l_processed = state_a, l_disk = Holds state_a,
       l_handled = 1, l_consumed = 2,
       l_runs = [(''/vods/a.ts'', Inl HTTPError), (''/vods/a.ts'', Inr Completed)] \<rparr>"
  by (simp add: demo_resolve_failing demo_resolve_ok failing_run demo_run)
     (simp add: demo_settings_def)

lemma failing_loop:
  "main_webhook_loop demo_settings empty_state (Holds empty_state) 0 0 []
       [(demo_event, failing_world)]
     = \<lparr> l_end = Waiting, l_shutdown = False, l_processed = empty_state,
         l_disk = Holds empty_state, l_handled = 0, l_consumed = 1,
         l_runs = [(''/vods/a.ts'', Inl HTTPError)] \<rparr>"
  by (simp add: demo_resolve_failing failing_run)

section \<open>Facts about the poll locator\<close>


lemma demo_candidates:
  "list_vod_candidates demo_settings (fs_one ''/vods/a.ts'' 524288000 0) = Inr [''/vods/a.ts'']"
  by code_simp

lemma seen_empty_state: "seen_of empty_state = Inr []"
  by (simp add: seen_of_def empty_state_def dict_get_def)

lemma vanished_locator:
  assumes "seen_of processed = Inr seen"
    and "list_vod_candidates s (tln now) = Inr (p # ps)"
    and "JStr (fs_resolve (tln now) p) \<notin> set seen"
    and "fs_stat (tln now) p = Some st"
    and "min_vod_size_mb s * 1024 * 1024 \<le> st_size st"
    and "of_int (stable_for_sec s) \<le> now - st_mtime st"
    and "fs_stat (tln (now + of_int (sample_interval (stable_for_sec s)))) p = None"
  shows "wait_for_finished_vod s tln processed now
           = Some (Inl FileNotFoundError, now + of_int (sample_interval (stable_for_sec s)))"
proof -
  have "scan_candidates s tln seen now (p # ps)
          = (Raised FileNotFoundError, now + of_int (sample_interval (stable_for_sec s)))"
    using assms(3-7) by (simp add: is_file_stable_def stat_at_def Let_def)
  then show ?thesis
    using assms(1,2)
    by (subst wait_for_finished_vod_def, simp, subst wait_cycles.simps, simp)
qed

lemma raised_pass:
  assumes "wait_for_finished_vod s tln processed now = Some (Inl e, t)"
  shows "poll_pass s tln w processed disk now
           = Some \<lparr> p_logged = Some e, p_vod = None, p_processed = processed, p_disk = disk,
                    p_now = t, p_calls = [] \<rparr>"
  using assms by (simp add: poll_pass_def)

lemma raised_loop:
  assumes "wait_for_finished_vod s tln processed now = Some (Inl e, t)"
  shows "main_poll_loop s tln ws processed disk now i passes
           = (if run_once s
              then Some (passes @ [\<lparr> p_logged = Some e, p_vod = None, p_processed = processed,
                                     p_disk = disk, p_now = t, p_calls = [] \<rparr>])
              else main_poll_loop s tln ws processed disk
                     (t + of_int (max 10 (poll_interval_sec s))) (Suc i)
                     (passes @ [\<lparr> p_logged = Some e, p_vod = None, p_processed = processed,
                                  p_disk = disk, p_now = t, p_calls = [] \<rparr>]))"
  by (subst main_poll_loop.simps) (simp add: raised_pass [OF assms])

lemma vanishing_now: "vanishing 200 = fs_one ''/vods/a.ts'' 524288000 0"
  by (simp add: vanishing_def)

lemma vanishing_locate:
  "wait_for_finished_vod demo_settings vanishing empty_state 200
     = Some (Inl FileNotFoundError, 240)"
proof -
  have "wait_for_finished_vod demo_settings vanishing empty_state 200
     = Some (Inl FileNotFoundError, 200 + of_int (sample_interval (stable_for_sec demo_settings)))"
    by (rule vanished_locator [where seen = "[]" and p = "''/vods/a.ts''" and ps = "[]"
          and st = "\<lparr> st_kind = RegularFile, st_size = 524288000, st_mtime = 0 \<rparr>"])
       (simp_all add: seen_empty_state vanishing_now demo_candidates,
        simp_all add: fs_one_def demo_settings_def vanishing_def sample_interval_def)
  then show ?thesis
    by (simp add: demo_settings_def sample_interval_def)
qed

lemma scan_skip:
  assumes "skipped s (tln t) seen t q"
  shows "scan_candidates s tln seen t (q # qs) = scan_candidates s tln seen t qs"
  using assms
  by (auto simp: skipped_def stat_at_def split: option.splits)

lemma scan_unstable:
  assumes "eligible s (tln t) seen t q"
    and "size_changed tln t (t + of_int (sample_interval (stable_for_sec s))) q"
  shows "scan_candidates s tln seen t (q # qs)
           = scan_candidates s tln seen (t + of_int (sample_interval (stable_for_sec s))) qs"
  using assms
  by (auto simp: eligible_def size_changed_def stat_at_def is_file_stable_def Let_def
           split: option.splits)


lemma scan_gone_first:
  assumes "JStr (fs_resolve (tln t) p) \<notin> set seen" and "fs_stat (tln t) p = None"
  shows "scan_candidates s tln seen t (p # post) = (Raised FileNotFoundError, t)"
  using assms by (simp add: stat_at_def)

lemma scan_gone_second:
  assumes "eligible s (tln t) seen t p"
    and "fs_stat (tln (t + of_int (sample_interval (stable_for_sec s)))) p = None"
  shows "scan_candidates s tln seen t (p # post)
           = (Raised FileNotFoundError, t + of_int (sample_interval (stable_for_sec s)))"
  using assms
  by (auto simp: eligible_def stat_at_def is_file_stable_def Let_def split: option.splits)

lemma scan_passed_over:
  assumes "passed_over s tln seen t pre t'"
  shows "scan_candidates s tln seen t (pre @ rest) = scan_candidates s tln seen t' rest"
  using assms
proof (induction pre arbitrary: t)
  case Nil
  then show ?case by simp
next
  case (Cons q qs)
  from Cons.prems consider
      (skip) "skipped s (tln t) seen t q" "passed_over s tln seen t qs t'"
    | (unstable) "eligible s (tln t) seen t q"
        "size_changed tln t (t + of_int (sample_interval (stable_for_sec s))) q"
        "passed_over s tln seen (t + of_int (sample_interval (stable_for_sec s))) qs t'"
    by auto
  then show ?case
  proof cases
    case skip
    then show ?thesis
      using Cons.IH [of t] scan_skip [of s tln t seen q "qs @ rest"] by simp
  next
    case unstable
    then show ?thesis
      using Cons.IH [of "t + of_int (sample_interval (stable_for_sec s))"]
        scan_unstable [of s tln t seen q "qs @ rest"] by simp
  qed
qed



lemma cycle_begins_wait:
  assumes "cycle_begins s tln seen now c"
  shows "wait_cycles s tln seen now = wait_cycles s tln seen c"
  using assms
proof (induction rule: cycle_begins.induct)
  case first_cycle
  show ?case by simp
next
  case (next_cycle c cands t)
  have "scan_candidates s tln seen c cands = (NoneReady, t)"
    using scan_passed_over [OF next_cycle(3), of "[]"] by simp
  then have "wait_cycles s tln seen c
               = wait_cycles s tln seen (t + of_int (poll_interval_sec s))"
    using next_cycle(2,4) by (subst wait_cycles.simps) simp
  with next_cycle.IH show ?case by simp
qed





lemma vanished_general:
  assumes "seen_of processed = Inr seen"
    and "cycle_begins s tln seen now c"
    and "list_vod_candidates s (tln c) = Inr (pre @ p # post)"
    and "passed_over s tln seen c pre t"
    and "(JStr (fs_resolve (tln t) p) \<notin> set seen \<and> fs_stat (tln t) p = None \<and> t' = t)
         \<or> (eligible s (tln t) seen t p
             \<and> fs_stat (tln (t + of_int (sample_interval (stable_for_sec s)))) p = None
             \<and> t' = t + of_int (sample_interval (stable_for_sec s)))"
  shows "wait_for_finished_vod s tln processed now = Some (Inl FileNotFoundError, t')"
proof -
  have "scan_candidates s tln seen t (p # post) = (Raised FileNotFoundError, t')"
    using assms(5) scan_gone_first [of tln t p seen s post] scan_gone_second [of s tln t seen p post]
    by auto
  then have "scan_candidates s tln seen c (pre @ p # post) = (Raised FileNotFoundError, t')"
    using scan_passed_over [OF assms(4), of "p # post"] by simp
  then have "wait_cycles s tln seen c = Some (Inl FileNotFoundError, t')"
    using assms(3) by (subst wait_cycles.simps) simp
  then show ?thesis
    using assms(1) cycle_begins_wait [OF assms(2)] by (simp add: wait_for_finished_vod_def)
qed

lemma growing_candidates:
  "list_vod_candidates demo_settings (growing 200) = Inr ([''/vods/b.ts''] @ ''/vods/a.ts'' # [])"
  "list_vod_candidates demo_settings (growing_then_gone 200)
     = Inr ([''/vods/b.ts''] @ ''/vods/a.ts'' # [])"
  by code_simp+

lemma growing_passed_over:
  "passed_over demo_settings growing [] 200 [''/vods/b.ts''] 240"
  "passed_over demo_settings growing_then_gone [] 200 [''/vods/b.ts''] 240"
  by code_simp+

lemma growing_ready:
  "eligible demo_settings (growing 240) [] 240 ''/vods/a.ts''"
  "size_kept growing 240 (240 + of_int (sample_interval (stable_for_sec demo_settings))) ''/vods/a.ts''"
  "eligible demo_settings (growing_then_gone 240) [] 240 ''/vods/a.ts''"
  "fs_stat (growing_then_gone (240 + of_int (sample_interval (stable_for_sec demo_settings))))
     ''/vods/a.ts'' = None"
  by code_simp+

lemma demo_interval: "sample_interval (stable_for_sec demo_settings) = 40"
  by code_simp




section \<open>Facts about the clip wait\<close>

lemma poll_calls_Suc:
  "poll_calls s pid (Suc n) = poll_calls s pid n @ [CallPoll pid, CallSleep (opus_poll_interval_sec s)]"
  unfolding poll_calls_def
  by (induction n) simp_all

lemma wait_clips_step:
  assumes "poll_clips w pid (Suc n) = Inr None"
    and "reply_elapsed s w pid (Suc n) \<le> of_int (opus_wait_timeout_sec s)"
    and "0 \<le> opus_poll_interval_sec s"
  shows "wait_clips_loop s w pid (entry_elapsed s w pid n) n tr
           = wait_clips_loop s w pid (entry_elapsed s w pid (Suc n)) (Suc n)
               (tr @ [CallPoll pid, CallSleep (opus_poll_interval_sec s)])"
  using assms
  by (subst wait_clips_loop.simps)
     (auto simp: poll_clips_def reply_elapsed_def split: sum.splits option.splits)

lemma wait_clips_skip:
  assumes "0 \<le> opus_poll_interval_sec s"
    and "\<forall>j. 1 \<le> j \<and> j \<le> m \<longrightarrow>
           poll_clips w pid j = Inr None
           \<and> reply_elapsed s w pid j \<le> of_int (opus_wait_timeout_sec s)"
  shows "wait_clips_loop s w pid 0 0 []
           = wait_clips_loop s w pid (entry_elapsed s w pid m) m (poll_calls s pid m)"
  using assms(2)
proof (induction m)
  case 0
  show ?case by (simp add: poll_calls_def)
next
  case (Suc m)
  then have "wait_clips_loop s w pid 0 0 []
           = wait_clips_loop s w pid (entry_elapsed s w pid m) m (poll_calls s pid m)"
    by simp
  also have "\<dots> = wait_clips_loop s w pid (entry_elapsed s w pid (Suc m)) (Suc m)
               (poll_calls s pid m @ [CallPoll pid, CallSleep (opus_poll_interval_sec s)])"
    using Suc.prems assms(1) by (intro wait_clips_step) simp_all
  finally show ?case by (simp add: poll_calls_Suc)
qed

lemma wait_clips_ready:
  assumes "poll_clips w pid (Suc n) = Inr (Some clips)"
  shows "wait_clips_loop s w pid el n tr = Some (Inr clips, tr @ [CallPoll pid])"
  using assms
  by (subst wait_clips_loop.simps)
     (auto simp: poll_clips_def split: sum.splits option.splits)

lemma wait_clips_timeout:
  assumes "poll_clips w pid (Suc n) = Inr None"
    and "reply_elapsed s w pid (Suc n) > of_int (opus_wait_timeout_sec s)"
  shows "wait_clips_loop s w pid (entry_elapsed s w pid n) n tr
           = Some (Inl TimeoutError, tr @ [CallPoll pid])"
  using assms
  by (subst wait_clips_loop.simps)
     (auto simp: poll_clips_def reply_elapsed_def split: sum.splits option.splits)

lemma wait_clips_error:
  assumes "poll_clips w pid (Suc n) = Inl e"
  shows "wait_clips_loop s w pid el n tr = Some (Inl e, tr @ [CallPoll pid])"
  using assms
  by (subst wait_clips_loop.simps)
     (auto simp: poll_clips_def split: sum.splits option.splits)

lemma timeout_run:
  assumes "wait_exportable_clips s w pid = Some (Inl e, tr)"
    and "exists_path (w_fs w) vod_path"
    and "seen_of processed = Inr seen"
    and "JStr (fs_resolve (w_fs w) vod_path) \<notin> set seen"
    and "publish_vod s w vod_path = (Inr url, tr1)"
    and "create_clip_project w url = Inr pid"
  shows "run_pipeline_for_vod s w processed disk vod_path
           = Some \<lparr> r_outcome = Inl e, r_processed = processed, r_disk = disk,
                    r_calls = tr1 @ [CallSubmit url] @ tr \<rparr>"
  using assms by (simp add: run_pipeline_for_vod_def run_stages_def)

lemma never_ready_polls: "poll_clips never_ready_world pid j = Inr None"
  by (simp add: poll_clips_def never_ready_world_def dict_get_def ready_clips_def)

lemma never_ready_elapsed:
  "reply_elapsed (settings_timeout 20) never_ready_world ''p1'' (Suc 0) = 0"
  "reply_elapsed (settings_timeout 20) never_ready_world ''p1'' 2 = 15"
  "reply_elapsed (settings_timeout 20) never_ready_world ''p1'' 3 = 30"
  by code_simp+

lemma never_ready_publish:
  "publish_vod (settings_timeout 20) never_ready_world ''/vods/a.ts''
     = (Inr ''https://host/abc.ts'', [CallPublish ''/vods/a.ts''])"
  "create_clip_project never_ready_world ''https://host/abc.ts'' = Inr ''p1''"
  "exists_path (w_fs never_ready_world) ''/vods/a.ts''"
  "fs_resolve (w_fs never_ready_world) ''/vods/a.ts'' = ''/vods/a.ts''"
  by code_simp+

lemma settings_timeout_sec:
  "opus_wait_timeout_sec (settings_timeout t) = t"
  "opus_poll_interval_sec (settings_timeout t) = 15"
  by (simp_all add: settings_timeout_def demo_settings_def)

section \<open>Facts about the webhook intake\<close>

lemma py_int_zero: "py_int m ''0'' = Some 0"
  by (simp add: py_int_def int_strip_def is_int_space_def digits_in_limit_def is_digit_def
        digits_value_def) arith

lemma absent_or_not_positive:
  assumes "case req_headers req ''Content-Length'' of
             None \<Rightarrow> True
           | Some v \<Rightarrow> (case py_int (h_max_str_digits h) v of None \<Rightarrow> True | Some n \<Rightarrow> n \<le> 0)"
  shows "read_body h req = ReadBytes ''{}''"
  using assms
  by (auto simp: read_body_def content_length_def header_or_def py_int_zero split: option.splits)

lemma positive_length:
  assumes "req_headers req ''Content-Length'' = Some v"
    and "py_int (h_max_str_digits h) v = Some n" and "0 < n"
  shows "read_body h req = (if n > h_maxsize h then ReadRaises OverflowError else req_read req n)"
  using assms
  by (simp add: read_body_def content_length_def header_or_def rfile_read_def)

lemma demo_lengths:
  "py_int 4300 ''abc'' = None" "py_int 4300 ''-5'' = Some (- 5)" "py_int 4300 ''103'' = Some 103"
  "py_int 4300 ''5'' = Some 5" "py_int 4300 ''2'' = Some 2"
  by code_simp+

lemma demo_bodies:
  "take 103 event_text = event_text" "demo_loads (take 5 event_text) = None"
  "demo_loads event_text = Some demo_event" "demo_loads ''{}'' = Some (JObj [])"
  "demo_loads [] = None" "demo_loads ''[]'' = Some (JArr [])"
  by code_simp+

lemma demo_handler_fields:
  "h_settings demo_handler = Some demo_settings" "h_loads demo_handler = demo_loads"
  "h_max_str_digits demo_handler = 4300" "h_maxsize demo_handler = 9223372036854775807"
  by (simp_all add: demo_handler_def)

lemma demo_request_fields:
  "req_path (demo_request c b) = ''/webhook/livestreamdvr''"
  "req_headers (demo_request c b) ''Content-Length'' = c"
  "req_headers (demo_request c b) ''X-Webhook-Token'' = Some ''secret''"
  "req_read (demo_request c b) n = ReadBytes (take (nat n) b)"
  by (simp_all add: demo_request_def)

lemma demo_webhook_settings:
  "webhook_path demo_settings = ''/webhook/livestreamdvr''" "webhook_token demo_settings = ''secret''"
  by (simp_all add: demo_settings_def)

section \<open>Claims\<close>

text \<open>
  C1, as amended. For every VOD path whose canonical path is in the ProcessedSet, the
  orchestrator makes no call on any collaborator (no Publish, SubmitClipJob,
  DownloadClips, UploadAll, no write of the state file) and leaves the in-memory state
  and the state file as they were; it returns (a skip) when the file exists and raises
  \<^verbatim>\<open>FileNotFoundError\<close> when it does not, because the existence check comes first.
  A second run on a path a completed run has just committed is such a skip.
\<close>

theorem processed_path_no_calls:
  "(fs_resolve (w_fs w) vod_path \<in> processed_set processed \<longrightarrow>
      run_pipeline_for_vod s w processed disk vod_path
        = Some \<lparr> r_outcome = (if exists_path (w_fs w) vod_path then Inr Skipped
                               else Inl FileNotFoundError),
                 r_processed = processed, r_disk = disk, r_calls = [] \<rparr>)
   \<and> (run_pipeline_for_vod s w processed disk vod_path = Some r \<and> r_outcome r = Inr Completed \<longrightarrow>
        run_pipeline_for_vod s w (r_processed r) (r_disk r) vod_path
          = Some \<lparr> r_outcome = Inr Skipped, r_processed = r_processed r, r_disk = r_disk r,
                   r_calls = [] \<rparr>)"
proof -
  have skip: "run_pipeline_for_vod s w p d vod_path
                = Some \<lparr> r_outcome = (if exists_path (w_fs w) vod_path then Inr Skipped
                                       else Inl FileNotFoundError),
                         r_processed = p, r_disk = d, r_calls = [] \<rparr>"
    if "fs_resolve (w_fs w) vod_path \<in> processed_set p" for p d
    using that by (auto simp: run_pipeline_for_vod_def processed_set_def split: sum.splits)
  show ?thesis
  proof (intro conjI impI)
    assume "fs_resolve (w_fs w) vod_path \<in> processed_set processed"
    then show "run_pipeline_for_vod s w processed disk vod_path
        = Some \<lparr> r_outcome = (if exists_path (w_fs w) vod_path then Inr Skipped
                               else Inl FileNotFoundError),
                 r_processed = processed, r_disk = disk, r_calls = [] \<rparr>"
      by (rule skip)
  next
    assume a: "run_pipeline_for_vod s w processed disk vod_path = Some r \<and> r_outcome r = Inr Completed"
    then have c: "exists_path (w_fs w) vod_path
         \<and> fs_resolve (w_fs w) vod_path \<in> processed_set (r_processed r)"
      using completed_run_commits [of s w processed disk vod_path r] by blast
    from c have "run_pipeline_for_vod s w (r_processed r) (r_disk r) vod_path
                = Some \<lparr> r_outcome = (if exists_path (w_fs w) vod_path then Inr Skipped
                                       else Inl FileNotFoundError),
                         r_processed = r_processed r, r_disk = r_disk r, r_calls = [] \<rparr>"
      by (intro skip) simp
    with c show "run_pipeline_for_vod s w (r_processed r) (r_disk r) vod_path
          = Some \<lparr> r_outcome = Inr Skipped, r_processed = r_processed r, r_disk = r_disk r,
                   r_calls = [] \<rparr>"
      by simp
  qed
qed

theorem processed_path_no_calls_witness:
  "run_pipeline_for_vod demo_settings (demo_world (fs_one ''/vods/a.ts'' 524288000 0) True)
     state_a (Holds state_a) ''/vods/a.ts''
   = Some \<lparr> r_outcome = Inr Skipped, r_processed = state_a, r_disk = Holds state_a, r_calls = [] \<rparr>"
proof -
  let ?r = "\<lparr> r_outcome = Inr Completed, r_processed = state_a, r_disk = Holds state_a,
                    r_calls = demo_calls ''/vods/a.ts''
                                @ [CallSave ''/state/processed_vods.json'' state_a] \<rparr>"
  have run: "run_pipeline_for_vod demo_settings (demo_world (fs_one ''/vods/a.ts'' 524288000 0) True)
     empty_state (Holds empty_state) ''/vods/a.ts'' = Some ?r \<and> r_outcome ?r = Inr Completed"
    by (simp add: demo_run)
  from processed_path_no_calls
    [where s = demo_settings and w = "demo_world (fs_one ''/vods/a.ts'' 524288000 0) True"
       and processed = empty_state and disk = "Holds empty_state" and vod_path = "''/vods/a.ts''"
       and r = ?r, THEN conjunct2, rule_format, OF run]
  show ?thesis by simp
qed
text \<open>
  C1 as stated fails for a processed path whose file is gone: the orchestrator does not
  return, it raises \<^verbatim>\<open>FileNotFoundError\<close>.
\<close>

theorem processed_path_missing_file_counterexample:
  "''/vods/a.ts'' \<in> processed_set state_a
   \<and> run_pipeline_for_vod demo_settings (demo_world (fs_one ''/vods/b.ts'' 524288000 0) True)
       state_a (Holds state_a) ''/vods/a.ts''
     = Some \<lparr> r_outcome = Inl FileNotFoundError, r_processed = state_a, r_disk = Holds state_a,
              r_calls = [] \<rparr>"
  by (simp add: state_a_set run_pipeline_for_vod_def demo_world_def fs_one_def exists_path_def)

text \<open>
  C2, as amended. For every orchestrator call that returns or raises: a skip leaves the
  in-memory state and the state file as they were; a completed run leaves the
  ProcessedSet equal to the set before plus the VOD's canonical path, and the state file
  holding exactly that state; a failed run leaves both as they were, unless the failure
  is the save of the state file itself. Then the path is already appended in memory, and
  the file is as it was when the save raised before opening it, and holds whatever
  reached the disk (nothing, for a text that cannot be encoded) when it raised after.
  No call removes an entry from the in-memory set.
\<close>

theorem processed_set_only_grows:
  assumes "run_pipeline_for_vod s w processed disk vod_path = Some r"
  shows "(case r_outcome r of
            Inr Skipped \<Rightarrow> r_processed r = processed \<and> r_disk r = disk
          | Inr Completed \<Rightarrow>
              processed_set (r_processed r)
                = insert (fs_resolve (w_fs w) vod_path) (processed_set processed)
              \<and> w_save w (processed_state_file s) (r_processed r) = Saved
              \<and> r_disk r = Holds (r_processed r)
          | Inl e \<Rightarrow>
              (r_processed r = processed \<and> r_disk r = disk)
              \<or> (processed_set (r_processed r)
                    = insert (fs_resolve (w_fs w) vod_path) (processed_set processed)
                  \<and> (case w_save w (processed_state_file s) (r_processed r) of
                        Saved \<Rightarrow> False
                      | RaisedBeforeOpen e' \<Rightarrow> e' = e \<and> r_disk r = disk
                      | RaisedAfterOpen e' left \<Rightarrow> e' = e \<and> r_disk r = left)))
         \<and> processed_set processed \<subseteq> processed_set (r_processed r)"
  using assms
  by (auto simp: run_pipeline_for_vod_def commit_def save_processed_def processed_set_append
           split: if_splits sum.splits option.splits prod.splits finished.splits
                  save_result.splits)

theorem processed_set_only_grows_witness:
  "run_pipeline_for_vod demo_settings (demo_world (fs_one ''/vods/a.ts'' 524288000 0) True)
     empty_state (Holds empty_state) ''/vods/a.ts''
   = Some \<lparr> r_outcome = Inr Completed, r_processed = state_a, r_disk = Holds state_a,
            r_calls = demo_calls ''/vods/a.ts''
                        @ [CallSave ''/state/processed_vods.json'' state_a] \<rparr>
   \<and> processed_set state_a = insert ''/vods/a.ts'' (processed_set empty_state)
   \<and> processed_set empty_state \<subseteq> processed_set state_a"
  using processed_set_only_grows [OF demo_run [of True]] demo_run [of True]
  by (auto simp: demo_world_def fs_one_def)

text \<open>
  C2 as stated fails when the disk is full: the state file is opened, which empties it,
  the write raises, the run fails, and the in-memory ProcessedSet has the path appended
  all the same.
\<close>

theorem failed_save_counterexample:
  "run_pipeline_for_vod demo_settings (demo_world (fs_one ''/vods/a.ts'' 524288000 0) False)
     empty_state (Holds empty_state) ''/vods/a.ts''
   = Some \<lparr> r_outcome = Inl OSError, r_processed = state_a, r_disk = Corrupt,
            r_calls = demo_calls ''/vods/a.ts''
                        @ [CallSave ''/state/processed_vods.json'' state_a] \<rparr>
   \<and> processed_set state_a \<noteq> processed_set empty_state"
  by (simp add: demo_run state_a_set empty_state_set)

text \<open>
  C5, as amended. For every path and stability window \<open>W\<close>, when the file exists at
  both samples the detector reads its size at the time of the call and again exactly
  \<open>max 1 (W div 3)\<close> seconds later (floor division), and returns true if and only if
  the two sizes are equal. The interval is at least 1 second and more than
  \<open>W/3 - 1\<close> seconds; it is not always at least \<open>W/3\<close> seconds.
\<close>

theorem is_file_stable_samples:
  assumes "fs_stat (tln now) p = Some st1"
    and "fs_stat (tln (now + of_int (max 1 (W div 3)))) p = Some st2"
  shows "is_file_stable tln now p W
           = (Inr (st_size st1 = st_size st2), now + of_int (max 1 (W div 3)))
         \<and> 1 \<le> max 1 (W div 3) \<and> W < 3 * max 1 (W div 3) + 3"
  using assms by (simp add: is_file_stable_def stat_at_def sample_interval_def Let_def)

theorem is_file_stable_samples_witness:
  "is_file_stable (\<lambda>t. fs_one ''/v/a.ts'' (if t < 1 then 10 else 20) 0) 0 ''/v/a.ts'' 120
     = (Inr False, 40)
   \<and> is_file_stable (\<lambda>t. fs_one ''/v/a.ts'' 10 0) 0 ''/v/a.ts'' 120 = (Inr True, 40)"
  using is_file_stable_samples [of "\<lambda>t. fs_one ''/v/a.ts'' (if t < 1 then 10 else 20) 0" 0 "''/v/a.ts''"
      "\<lparr> st_kind = RegularFile, st_size = 10, st_mtime = 0 \<rparr>" 120
      "\<lparr> st_kind = RegularFile, st_size = 20, st_mtime = 0 \<rparr>"]
    is_file_stable_samples [of "\<lambda>t. fs_one ''/v/a.ts'' 10 0" 0 "''/v/a.ts''"
      "\<lparr> st_kind = RegularFile, st_size = 10, st_mtime = 0 \<rparr>" 120
      "\<lparr> st_kind = RegularFile, st_size = 10, st_mtime = 0 \<rparr>"]
  by (simp add: fs_one_def)

text \<open>
  C5 as stated fails at \<open>W = 4\<close>: the second sample is taken 1 second after the first,
  and 1 second is less than \<open>4/3\<close> seconds.
\<close>

theorem is_file_stable_interval_counterexample:
  "snd (is_file_stable (\<lambda>t. fs_one ''/v/a.ts'' 10 0) 0 ''/v/a.ts'' 4) - 0 = 1
   \<and> (1::rat) < 4 / 3"
  by (simp add: is_file_stable_def stat_at_def sample_interval_def fs_one_def)

text \<open>
  C10. A POST to the configured path that passes the token check and whose
  \<^verbatim>\<open>Content-Length\<close> header is absent, is not a number for \<^verbatim>\<open>int\<close>, or is a number
  that is not positive is handled as if its body were \<^verbatim>\<open>{}\<close>: status 200, and the
  empty object is put on the queue. (\<^verbatim>\<open>json.loads\<close> reads \<^verbatim>\<open>{}\<close> as the empty
  dict.)
\<close>

theorem missing_content_length_accepted:
  assumes "h_settings h = Some s"
    and "req_path req = webhook_path s"
    and "webhook_token s = [] \<or> header_or req ''X-Webhook-Token'' [] = webhook_token s"
    and "case req_headers req ''Content-Length'' of
           None \<Rightarrow> True
         | Some v \<Rightarrow> (case py_int (h_max_str_digits h) v of None \<Rightarrow> True | Some n \<Rightarrow> n \<le> 0)"
    and "h_loads h ''{}'' = Some (JObj [])"
  shows "do_POST h event_queue req = (Status 200, event_queue @ [JObj []])"
  using assms(1,2,3,5) absent_or_not_positive [OF assms(4)]
  by (auto simp: do_POST_def dict_get_def)

theorem missing_content_length_accepted_witness:
  "do_POST demo_handler [] (demo_request None ''ignored'') = (Status 200, [] @ [JObj []])
   \<and> do_POST demo_handler [] (demo_request (Some ''0'') []) = (Status 200, [] @ [JObj []])
   \<and> do_POST demo_handler [] (demo_request (Some ''abc'') ''ignored'') = (Status 200, [] @ [JObj []])
   \<and> do_POST demo_handler [] (demo_request (Some ''-5'') ''ignored'') = (Status 200, [] @ [JObj []])"
  by (intro conjI;
      rule missing_content_length_accepted [where s = demo_settings];
      simp add: demo_handler_fields demo_request_fields demo_webhook_settings header_or_def
        demo_bodies demo_lengths py_int_zero)

text \<open>
  C6, as amended. With the settings loaded, for every POST: a path other than the
  configured one gives 404; otherwise a configured token that the
  \<^verbatim>\<open>X-Webhook-Token\<close> header does not equal gives 401; otherwise the body is
  \<^verbatim>\<open>{}\<close> when the \<^verbatim>\<open>Content-Length\<close> header is absent, not a number or not
  positive, and is what the read of that many bytes returns when it is a positive number
  within the index size; a body that does not parse gives 400 and nothing is enqueued; a
  body that parses as a JSON object is enqueued and gives 200. Nothing is enqueued with
  404 and 401.
\<close>

theorem do_POST_status:
  assumes "h_settings h = Some s"
  shows "(req_path req \<noteq> webhook_path s \<longrightarrow> do_POST h event_queue req = (Status 404, event_queue))
    \<and> (req_path req = webhook_path s \<and> webhook_token s \<noteq> []
          \<and> header_or req ''X-Webhook-Token'' [] \<noteq> webhook_token s \<longrightarrow>
        do_POST h event_queue req = (Status 401, event_queue))
    \<and> (req_path req = webhook_path s
          \<and> (webhook_token s = [] \<or> header_or req ''X-Webhook-Token'' [] = webhook_token s) \<longrightarrow>
        (\<forall>raw.
           (case req_headers req ''Content-Length'' of
              None \<Rightarrow> raw = ''{}''
            | Some v \<Rightarrow>
                (case py_int (h_max_str_digits h) v of
                   None \<Rightarrow> raw = ''{}''
                 | Some n \<Rightarrow>
                     if n \<le> 0 then raw = ''{}''
                     else n \<le> h_maxsize h \<and> req_read req n = ReadBytes raw)) \<longrightarrow>
           (h_loads h raw = None \<longrightarrow> do_POST h event_queue req = (Status 400, event_queue))
           \<and> (\<forall>kvs. h_loads h raw = Some (JObj kvs) \<longrightarrow>
                 do_POST h event_queue req = (Status 200, event_queue @ [JObj kvs]))))"
proof (intro conjI impI allI)
  assume "req_path req \<noteq> webhook_path s"
  then show "do_POST h event_queue req = (Status 404, event_queue)"
    using assms by (simp add: do_POST_def)
next
  assume "req_path req = webhook_path s \<and> webhook_token s \<noteq> []
          \<and> header_or req ''X-Webhook-Token'' [] \<noteq> webhook_token s"
  then show "do_POST h event_queue req = (Status 401, event_queue)"
    using assms by (simp add: do_POST_def)
next
  fix raw
  assume ok: "req_path req = webhook_path s
          \<and> (webhook_token s = [] \<or> header_or req ''X-Webhook-Token'' [] = webhook_token s)"
    and body: "case req_headers req ''Content-Length'' of
              None \<Rightarrow> raw = ''{}''
            | Some v \<Rightarrow>
                (case py_int (h_max_str_digits h) v of
                   None \<Rightarrow> raw = ''{}''
                 | Some n \<Rightarrow>
                     if n \<le> 0 then raw = ''{}''
                     else n \<le> h_maxsize h \<and> req_read req n = ReadBytes raw)"
  have rb: "read_body h req = ReadBytes raw"
  proof (cases "req_headers req ''Content-Length''")
    case None
    with body absent_or_not_positive [where req = req and h = h] show ?thesis by simp
  next
    case (Some v)
    show ?thesis
    proof (cases "py_int (h_max_str_digits h) v")
      case None
      with Some body absent_or_not_positive [where req = req and h = h] show ?thesis by simp
    next
      case n: (Some n)
      show ?thesis
      proof (cases "n \<le> 0")
        case True
        with Some n body absent_or_not_positive [where req = req and h = h] show ?thesis by simp
      next
        case False
        with Some n body positive_length [where req = req and v = v and h = h and n = n] show ?thesis by simp
      qed
    qed
  qed
  {
    assume "h_loads h raw = None"
    then show "do_POST h event_queue req = (Status 400, event_queue)"
      using assms ok rb by (auto simp: do_POST_def)
  next
    fix kvs
    assume "h_loads h raw = Some (JObj kvs)"
    then show "do_POST h event_queue req = (Status 200, event_queue @ [JObj kvs])"
      using assms ok rb by (auto simp: do_POST_def dict_get_def)
  }
qed
theorem do_POST_status_witness:
  "do_POST demo_handler [] (demo_request (Some ''103'') event_text) = (Status 200, [demo_event])
   \<and> do_POST demo_handler [] (demo_request (Some ''5'') event_text) = (Status 400, [])
   \<and> do_POST demo_handler [] ((demo_request (Some ''103'') event_text) \<lparr> req_path := ''/other'' \<rparr>)
       = (Status 404, [])
   \<and> do_POST demo_handler []
         ((demo_request (Some ''103'') event_text) \<lparr> req_headers := (\<lambda>name. None) \<rparr>)
       = (Status 401, [])"
proof -
  note st = do_POST_status [OF demo_handler_fields(1)]
  have ok: "req_path (demo_request c b) = webhook_path demo_settings
          \<and> (webhook_token demo_settings = []
              \<or> header_or (demo_request c b) ''X-Webhook-Token'' [] = webhook_token demo_settings)"
    for c b
    by (simp add: demo_request_fields demo_webhook_settings header_or_def)
  have body1: "case req_headers (demo_request (Some ''103'') event_text) ''Content-Length'' of
              None \<Rightarrow> event_text = ''{}''
            | Some v \<Rightarrow>
                (case py_int (h_max_str_digits demo_handler) v of
                   None \<Rightarrow> event_text = ''{}''
                 | Some n \<Rightarrow>
                     if n \<le> 0 then event_text = ''{}''
                     else n \<le> h_maxsize demo_handler
                          \<and> req_read (demo_request (Some ''103'') event_text) n = ReadBytes event_text)"
    by (simp add: demo_request_fields demo_handler_fields demo_lengths demo_bodies)
  have body2: "case req_headers (demo_request (Some ''5'') event_text) ''Content-Length'' of
              None \<Rightarrow> take 5 event_text = ''{}''
            | Some v \<Rightarrow>
                (case py_int (h_max_str_digits demo_handler) v of
                   None \<Rightarrow> take 5 event_text = ''{}''
                 | Some n \<Rightarrow>
                     if n \<le> 0 then take 5 event_text = ''{}''
                     else n \<le> h_maxsize demo_handler
                          \<and> req_read (demo_request (Some ''5'') event_text) n
                              = ReadBytes (take 5 event_text))"
    by (simp add: demo_request_fields demo_handler_fields demo_lengths)
  have a: "do_POST demo_handler [] (demo_request (Some ''103'') event_text) = (Status 200, [demo_event])"
    using st [where req = "demo_request (Some ''103'') event_text" and event_queue = "[]",
        THEN conjunct2, THEN conjunct2, rule_format, OF ok body1, THEN conjunct2, rule_format,
        where kvs = "[(''action'', JStr ''end_download''),
                      (''data'', JObj [(''vod'', JObj [(''path_downloaded_vod'', JStr ''/recorder/a.ts''),
                                                        (''basename'', JStr ''a'')])])]"]
    by (simp add: demo_handler_fields demo_bodies demo_event_def)
  have b: "do_POST demo_handler [] (demo_request (Some ''5'') event_text) = (Status 400, [])"
    using st [where req = "demo_request (Some ''5'') event_text" and event_queue = "[]",
        THEN conjunct2, THEN conjunct2, rule_format, OF ok body2, THEN conjunct1]
    by (simp add: demo_handler_fields demo_bodies)
  have c: "do_POST demo_handler [] ((demo_request (Some ''103'') event_text) \<lparr> req_path := ''/other'' \<rparr>)
       = (Status 404, [])"
    using st [where req = "(demo_request (Some ''103'') event_text) \<lparr> req_path := ''/other'' \<rparr>"
        and event_queue = "[]", THEN conjunct1]
    by (simp add: demo_webhook_settings)
  have d: "do_POST demo_handler []
         ((demo_request (Some ''103'') event_text) \<lparr> req_headers := (\<lambda>name. None) \<rparr>)
       = (Status 401, [])"
    using st [where req = "(demo_request (Some ''103'') event_text) \<lparr> req_headers := (\<lambda>name. None) \<rparr>"
        and event_queue = "[]", THEN conjunct2, THEN conjunct1]
    by (simp add: demo_webhook_settings demo_request_fields header_or_def)
  from a b c d show ?thesis by simp
qed

text \<open>
  C6 as stated fails on an empty body sent with \<^verbatim>\<open>Content-Length: 0\<close>: the body does
  not parse as JSON, and the answer is 200 with the empty object enqueued, not 400. (A
  body that parses but is not an object, such as \<^verbatim>\<open>[]\<close>, gets neither 400 nor 200:
  \<^verbatim>\<open>payload.get\<close> raises outside the \<^verbatim>\<open>try\<close> and no status is sent.)
\<close>

theorem do_POST_empty_body_counterexample:
  "demo_loads [] = None
   \<and> do_POST demo_handler [] (demo_request (Some ''0'') []) = (Status 200, [JObj []])
   \<and> demo_loads ''[]'' = Some (JArr [])
   \<and> do_POST demo_handler [] (demo_request (Some ''2'') ''[]'') = (Unhandled AttributeError, [])"
  by code_simp



text \<open>
  C7, as amended. In webhook mode with the run-once flag set, the main loop ends, and
  shuts the listener down, at the first orchestrator call that returns without raising
  (a completed run or the skip of a processed path): when the loop has exited, exactly
  one job is counted as handled, the last orchestrator call returned, and every call
  before it raised; as long as it has not exited, no job is counted and every
  orchestrator call so far raised. A call that raises does not end the loop.
\<close>

theorem run_once_exits_after_first_returning_run:
  assumes "run_once s"
    and "st = main_webhook_loop s processed disk 0 0 [] events"
  shows "(l_end st = Exited \<longrightarrow>
            l_shutdown st \<and> l_handled st = 1
            \<and> (\<exists>pre vod d. l_runs st = pre @ [(vod, Inr d)] \<and> (\<forall>x\<in>set pre. isl (snd x))))
         \<and> (l_end st \<noteq> Exited \<longrightarrow> l_handled st = 0 \<and> (\<forall>x\<in>set (l_runs st). isl (snd x)))"
  using webhook_loop_runs [of s "[]" st processed disk 0 events] assms by simp

theorem run_once_exits_after_first_returning_run_witness:
  "l_end (main_webhook_loop demo_settings empty_state (Holds empty_state) 0 0 []
            [(demo_event, failing_world),
             (demo_event, demo_world (fs_one ''/vods/a.ts'' 524288000 0) True),
             (demo_event, failing_world)]) = Exited
   \<and> l_shutdown (main_webhook_loop demo_settings empty_state (Holds empty_state) 0 0 []
            [(demo_event, failing_world),
             (demo_event, demo_world (fs_one ''/vods/a.ts'' 524288000 0) True),
             (demo_event, failing_world)])
   \<and> l_handled (main_webhook_loop demo_settings empty_state (Holds empty_state) 0 0 []
            [(demo_event, failing_world),
             (demo_event, demo_world (fs_one ''/vods/a.ts'' 524288000 0) True),
             (demo_event, failing_world)]) = 1"
proof -
  have once: "run_once demo_settings"
    by (simp add: demo_settings_def)
  show ?thesis
    using run_once_exits_after_first_returning_run [OF once refl, of empty_state "Holds empty_state"
        "[(demo_event, failing_world),
          (demo_event, demo_world (fs_one ''/vods/a.ts'' 524288000 0) True),
          (demo_event, failing_world)]"]
    unfolding demo_loop by simp
qed

text \<open>
  C7 as stated fails when the pipeline run raises: the orchestrator was invoked for a
  resolved path, yet the job is not counted and the loop goes back to waiting.
\<close>

theorem failed_run_not_handled_counterexample:
  "run_once demo_settings
   \<and> main_webhook_loop demo_settings empty_state (Holds empty_state) 0 0 []
       [(demo_event, failing_world)]
     = \<lparr> l_end = Waiting, l_shutdown = False, l_processed = empty_state,
         l_disk = Holds empty_state, l_handled = 0, l_consumed = 1,
         l_runs = [(''/vods/a.ts'', Inl HTTPError)] \<rparr>"
  unfolding failing_loop by (simp add: demo_settings_def)




text \<open>
  C9, as amended. If a candidate of any cycle, every candidate before it having been
  passed over, is gone when the locator examines it, or passes the locator's checks and
  is gone when the Stability Detector takes its second sample, the locator does not
  treat it as not yet ready and does not go on to the next cycle: it raises
  \<^verbatim>\<open>FileNotFoundError\<close>. The poll branch of the trigger loop catches and logs the
  exception and leaves the processed state as it was; with run-once set it then exits
  without having processed a VOD, otherwise it sleeps \<open>max 10 poll_interval_sec\<close>
  seconds and calls the locator afresh.
\<close>

theorem vanished_candidate_raises:
  assumes "seen_of processed = Inr seen"
    and "cycle_begins s tln seen now c"
    and "list_vod_candidates s (tln c) = Inr (pre @ p # post)"
    and "passed_over s tln seen c pre t"
    and "(JStr (fs_resolve (tln t) p) \<notin> set seen \<and> fs_stat (tln t) p = None \<and> t' = t)
         \<or> (eligible s (tln t) seen t p
             \<and> fs_stat (tln (t + of_int (sample_interval (stable_for_sec s)))) p = None
             \<and> t' = t + of_int (sample_interval (stable_for_sec s)))"
    and "ps1 = \<lparr> p_logged = Some FileNotFoundError, p_vod = None, p_processed = processed,
                  p_disk = disk, p_now = t', p_calls = [] \<rparr>"
  shows "wait_for_finished_vod s tln processed now = Some (Inl FileNotFoundError, t')
         \<and> poll_pass s tln w processed disk now = Some ps1
         \<and> main_poll_loop s tln ws processed disk now i passes
             = (if run_once s then Some (passes @ [ps1])
                else main_poll_loop s tln ws processed disk
                       (t' + of_int (max 10 (poll_interval_sec s))) (Suc i) (passes @ [ps1]))"
  using vanished_general [OF assms(1-5)] assms(6)
  by (simp add: raised_pass raised_loop)

theorem vanished_candidate_raises_witness:
  "wait_for_finished_vod demo_settings growing_then_gone empty_state 200
     = Some (Inl FileNotFoundError, 280)
   \<and> poll_pass demo_settings growing_then_gone (demo_world (growing_then_gone 280) True)
       empty_state (Holds empty_state) 200
     = Some \<lparr> p_logged = Some FileNotFoundError, p_vod = None, p_processed = empty_state,
              p_disk = Holds empty_state, p_now = 280, p_calls = [] \<rparr>"
proof -
  have gone: "(JStr (fs_resolve (growing_then_gone 240) ''/vods/a.ts'') \<notin> set []
                 \<and> fs_stat (growing_then_gone 240) ''/vods/a.ts'' = None \<and> (280 :: rat) = 240)
         \<or> (eligible demo_settings (growing_then_gone 240) [] 240 ''/vods/a.ts''
             \<and> fs_stat (growing_then_gone
                          (240 + of_int (sample_interval (stable_for_sec demo_settings))))
                  ''/vods/a.ts'' = None
             \<and> (280 :: rat) = 240 + of_int (sample_interval (stable_for_sec demo_settings)))"
    by (simp only: growing_ready simp_thms) (simp add: demo_interval)
  from vanished_candidate_raises [OF seen_empty_state cycle_begins.first_cycle
      growing_candidates(2) growing_passed_over(2) gone refl,
      where disk = "Holds empty_state" and w = "demo_world (growing_then_gone 280) True"
        and ws = "\<lambda>i. demo_world (growing_then_gone 280) True" and i = 0 and passes = "[]"]
  show ?thesis by simp
qed

text \<open>
  C9 as stated fails on a recording that is gone at the second sample: the locator
  raises instead of retrying on the next cycle, and with run-once set the trigger loop
  ends after that pass with no VOD processed.
\<close>

theorem vanished_candidate_counterexample:
  "wait_for_finished_vod demo_settings vanishing empty_state 200
     = Some (Inl FileNotFoundError, 240)
   \<and> main_poll_loop demo_settings vanishing (\<lambda>i. demo_world (vanishing 240) True)
       empty_state (Holds empty_state) 200 0 []
     = Some [\<lparr> p_logged = Some FileNotFoundError, p_vod = None, p_processed = empty_state,
               p_disk = Holds empty_state, p_now = 240, p_calls = [] \<rparr>]"
  by (simp add: vanishing_locate raised_loop [OF vanishing_locate]) (simp add: demo_settings_def)

text \<open>
  C3, as amended. The clip-readiness wait polls the service and, after each poll that
  reports no clips, compares the time elapsed since its start with the configured
  timeout: it raises a timeout error if the timeout is exceeded, and otherwise sleeps the
  configured interval and polls again. It returns the clip list as soon as a poll
  reports a non-empty list, also when that poll ends after the timeout. A poll that
  raises ends the wait with its exception. When the wait ends with the timeout error the
  run fails with it and the in-memory state and the state file are unchanged.
\<close>

theorem wait_exportable_clips_outcome:
  assumes "0 \<le> opus_poll_interval_sec s"
    and "\<forall>j. 1 \<le> j \<and> j \<le> m \<longrightarrow>
           poll_clips w pid j = Inr None
           \<and> reply_elapsed s w pid j \<le> of_int (opus_wait_timeout_sec s)"
  shows "(\<forall>clips. poll_clips w pid (Suc m) = Inr (Some clips) \<longrightarrow>
            wait_exportable_clips s w pid
              = Some (Inr clips, poll_calls s pid m @ [CallPoll pid]))
       \<and> (poll_clips w pid (Suc m) = Inr None
            \<and> reply_elapsed s w pid (Suc m) > of_int (opus_wait_timeout_sec s) \<longrightarrow>
          wait_exportable_clips s w pid
            = Some (Inl TimeoutError, poll_calls s pid m @ [CallPoll pid])
          \<and> (\<forall>processed disk vod_path seen url tr1.
                exists_path (w_fs w) vod_path
                \<and> seen_of processed = Inr seen
                \<and> JStr (fs_resolve (w_fs w) vod_path) \<notin> set seen
                \<and> publish_vod s w vod_path = (Inr url, tr1)
                \<and> create_clip_project w url = Inr pid \<longrightarrow>
                run_pipeline_for_vod s w processed disk vod_path
                  = Some \<lparr> r_outcome = Inl TimeoutError, r_processed = processed, r_disk = disk,
                           r_calls = tr1 @ [CallSubmit url] @ poll_calls s pid m @ [CallPoll pid] \<rparr>))
       \<and> (\<forall>e. poll_clips w pid (Suc m) = Inl e \<longrightarrow>
            wait_exportable_clips s w pid = Some (Inl e, poll_calls s pid m @ [CallPoll pid]))"
proof -
  have skip: "wait_exportable_clips s w pid
                = wait_clips_loop s w pid (entry_elapsed s w pid m) m (poll_calls s pid m)"
    unfolding wait_exportable_clips_def by (rule wait_clips_skip [OF assms])
  have ready: "wait_exportable_clips s w pid = Some (Inr clips, poll_calls s pid m @ [CallPoll pid])"
    if "poll_clips w pid (Suc m) = Inr (Some clips)" for clips
    using that by (simp add: skip wait_clips_ready)
  have timeout: "wait_exportable_clips s w pid
                   = Some (Inl TimeoutError, poll_calls s pid m @ [CallPoll pid])"
    if "poll_clips w pid (Suc m) = Inr None"
      and "reply_elapsed s w pid (Suc m) > of_int (opus_wait_timeout_sec s)"
    using that by (simp add: skip wait_clips_timeout)
  have failed: "wait_exportable_clips s w pid = Some (Inl e, poll_calls s pid m @ [CallPoll pid])"
    if "poll_clips w pid (Suc m) = Inl e" for e
    using that by (simp add: skip wait_clips_error)
  show ?thesis
  proof (intro conjI allI impI)
    fix clips assume "poll_clips w pid (Suc m) = Inr (Some clips)"
    then show "wait_exportable_clips s w pid = Some (Inr clips, poll_calls s pid m @ [CallPoll pid])"
      by (rule ready)
  next
    assume a: "poll_clips w pid (Suc m) = Inr None
            \<and> reply_elapsed s w pid (Suc m) > of_int (opus_wait_timeout_sec s)"
    then show "wait_exportable_clips s w pid
            = Some (Inl TimeoutError, poll_calls s pid m @ [CallPoll pid])"
      using timeout by blast
  next
    fix processed disk vod_path seen url tr1
    assume a: "poll_clips w pid (Suc m) = Inr None
            \<and> reply_elapsed s w pid (Suc m) > of_int (opus_wait_timeout_sec s)"
      and b: "exists_path (w_fs w) vod_path
                \<and> seen_of processed = Inr seen
                \<and> JStr (fs_resolve (w_fs w) vod_path) \<notin> set seen
                \<and> publish_vod s w vod_path = (Inr url, tr1)
                \<and> create_clip_project w url = Inr pid"
    from a have t: "wait_exportable_clips s w pid
            = Some (Inl TimeoutError, poll_calls s pid m @ [CallPoll pid])"
      using timeout by blast
    from b show "run_pipeline_for_vod s w processed disk vod_path
                  = Some \<lparr> r_outcome = Inl TimeoutError, r_processed = processed, r_disk = disk,
                           r_calls = tr1 @ [CallSubmit url] @ poll_calls s pid m @ [CallPoll pid] \<rparr>"
      using timeout_run [OF t, of vod_path processed seen url tr1 disk] by simp
  next
    fix e assume "poll_clips w pid (Suc m) = Inl e"
    then show "wait_exportable_clips s w pid = Some (Inl e, poll_calls s pid m @ [CallPoll pid])"
      by (rule failed)
  qed
qed

theorem wait_exportable_clips_outcome_witness:
  "wait_exportable_clips (settings_timeout 20) never_ready_world ''p1''
     = Some (Inl TimeoutError,
             [CallPoll ''p1'', CallSleep 15, CallPoll ''p1'', CallSleep 15, CallPoll ''p1''])
   \<and> run_pipeline_for_vod (settings_timeout 20) never_ready_world empty_state (Holds empty_state)
       ''/vods/a.ts''
     = Some \<lparr> r_outcome = Inl TimeoutError, r_processed = empty_state, r_disk = Holds empty_state,
              r_calls = [CallPublish ''/vods/a.ts'', CallSubmit ''https://host/abc.ts'',
                         CallPoll ''p1'', CallSleep 15, CallPoll ''p1'', CallSleep 15,
                         CallPoll ''p1''] \<rparr>"
proof -
  have iv: "0 \<le> opus_poll_interval_sec (settings_timeout 20)"
    by (simp add: settings_timeout_sec)
  have early: "\<forall>j. 1 \<le> j \<and> j \<le> 2 \<longrightarrow>
           poll_clips never_ready_world ''p1'' j = Inr None
           \<and> reply_elapsed (settings_timeout 20) never_ready_world ''p1'' j
                \<le> of_int (opus_wait_timeout_sec (settings_timeout 20))"
  proof (intro allI impI)
    fix j :: nat
    assume "1 \<le> j \<and> j \<le> 2"
    then have "j = Suc 0 \<or> j = 2"
      by arith
    then show "poll_clips never_ready_world ''p1'' j = Inr None
           \<and> reply_elapsed (settings_timeout 20) never_ready_world ''p1'' j
                \<le> of_int (opus_wait_timeout_sec (settings_timeout 20))"
      by (auto simp: never_ready_polls never_ready_elapsed settings_timeout_sec)
  qed
  have calls: "poll_calls (settings_timeout 20) ''p1'' 2
                 = [CallPoll ''p1'', CallSleep 15, CallPoll ''p1'', CallSleep 15]"
    by code_simp
  have late: "poll_clips never_ready_world ''p1'' (Suc 2) = Inr None
            \<and> reply_elapsed (settings_timeout 20) never_ready_world ''p1'' (Suc 2)
                > of_int (opus_wait_timeout_sec (settings_timeout 20))"
    by (simp add: never_ready_polls never_ready_elapsed settings_timeout_sec)
  from wait_exportable_clips_outcome [OF iv early, THEN conjunct2, THEN conjunct1, rule_format, OF late]
  have a: "wait_exportable_clips (settings_timeout 20) never_ready_world ''p1''
             = Some (Inl TimeoutError, poll_calls (settings_timeout 20) ''p1'' 2 @ [CallPoll ''p1''])"
    and b: "\<forall>processed disk vod_path seen url tr1.
                exists_path (w_fs never_ready_world) vod_path
                \<and> seen_of processed = Inr seen
                \<and> JStr (fs_resolve (w_fs never_ready_world) vod_path) \<notin> set seen
                \<and> publish_vod (settings_timeout 20) never_ready_world vod_path = (Inr url, tr1)
                \<and> create_clip_project never_ready_world url = Inr ''p1'' \<longrightarrow>
                run_pipeline_for_vod (settings_timeout 20) never_ready_world processed disk vod_path
                  = Some \<lparr> r_outcome = Inl TimeoutError, r_processed = processed, r_disk = disk,
                           r_calls = tr1 @ [CallSubmit url]
                                       @ poll_calls (settings_timeout 20) ''p1'' 2 @ [CallPoll ''p1''] \<rparr>"
    by blast+
  have pre: "exists_path (w_fs never_ready_world) ''/vods/a.ts''
                \<and> seen_of empty_state = Inr []
                \<and> JStr (fs_resolve (w_fs never_ready_world) ''/vods/a.ts'') \<notin> set []
                \<and> publish_vod (settings_timeout 20) never_ready_world ''/vods/a.ts''
                     = (Inr ''https://host/abc.ts'', [CallPublish ''/vods/a.ts''])
                \<and> create_clip_project never_ready_world ''https://host/abc.ts'' = Inr ''p1''"
    by (simp add: never_ready_publish seen_empty_state)
  from a b [rule_format, OF pre, of "Holds empty_state"] show ?thesis
    by (simp add: calls)
qed

text \<open>
  C3 as stated fails when the first non-empty poll ends after the timeout: with a
  timeout of 10 seconds and an interval of 15, the first poll reports nothing at second
  0 and the second poll reports two clips at second 15; the wait returns them and raises
  no timeout error.
\<close>

theorem late_clips_returned_counterexample:
  "wait_exportable_clips (settings_timeout 10) (demo_world (fs_one ''/vods/a.ts'' 524288000 0) True) ''p1''
     = Some (Inr [clip_a, clip_b], [CallPoll ''p1'', CallSleep 15, CallPoll ''p1''])
   \<and> poll_clips (demo_world (fs_one ''/vods/a.ts'' 524288000 0) True) ''p1'' 1 = Inr None
   \<and> reply_elapsed (settings_timeout 10) (demo_world (fs_one ''/vods/a.ts'' 524288000 0) True) ''p1'' 2 = 15
   \<and> of_int (opus_wait_timeout_sec (settings_timeout 10)) < (15 :: rat)"
proof -
  have w: "wait_exportable_clips (settings_timeout 10) (demo_world (fs_one ''/vods/a.ts'' 524288000 0) True) ''p1''
     = Some (Inr [clip_a, clip_b], [CallPoll ''p1'', CallSleep 15, CallPoll ''p1''])"
    apply (simp add: wait_exportable_clips_def)
    apply (subst wait_clips_loop.simps)
    apply (simp add: demo_get_clips settings_timeout_sec dict_get_def ready_clips_def)
    apply (subst wait_clips_loop.simps)
    apply (simp add: demo_get_clips settings_timeout_sec dict_get_def ready_clips_def)
    done
  have p: "poll_clips (demo_world (fs_one ''/vods/a.ts'' 524288000 0) True) ''p1'' 1 = Inr None"
    by code_simp
  have e: "reply_elapsed (settings_timeout 10) (demo_world (fs_one ''/vods/a.ts'' 524288000 0) True) ''p1'' 2 = 15"
    by code_simp
  have t: "of_int (opus_wait_timeout_sec (settings_timeout 10)) < (15 :: rat)"
    by (simp add: settings_timeout_sec)
  from w p e t show ?thesis by simp
qed

end
